theory Spec2Isabelle
  imports Complex_Main
begin

section \<open>Array elements and their arithmetic\<close>

text \<open>
  The thresholding routines of \<^verbatim>\<open>cucim/skimage/filters/thresholding.py\<close> work on arrays of
  machine numbers. An element is a finite number, an infinity or not-a-number. The
  operations of this section are the exact ones on finite numbers (no rounding, one
  zero); the special values follow IEEE 754 as NumPy and CuPy expose it: NaN
  propagates, compares false with everything, and \<open>inf - inf\<close>, \<open>0 * inf\<close>, \<open>0 / 0\<close> are NaN.
  What a fixed-width type adds is written out where the routines compute in one: the
  wrap-around of a signed integer image in \<open>threshold_li\<close>, and the overflow of the
  working float type in \<open>_mean_std\<close> and the thresholds built on it.
\<close>

datatype fval = NaN | NInf | Fin real | PInf

definition isnan :: "fval \<Rightarrow> bool" where
  "isnan x = (case x of NaN \<Rightarrow> True | _ \<Rightarrow> False)"

definition isfinite :: "fval \<Rightarrow> bool" where
  "isfinite x = (case x of Fin _ \<Rightarrow> True | _ \<Rightarrow> False)"

fun np_neg :: "fval \<Rightarrow> fval" where
  "np_neg NaN = NaN"
| "np_neg NInf = PInf"
| "np_neg (Fin a) = Fin (- a)"
| "np_neg PInf = NInf"

fun np_add :: "fval \<Rightarrow> fval \<Rightarrow> fval" where
  "np_add NaN _ = NaN"
| "np_add _ NaN = NaN"
| "np_add (Fin a) (Fin b) = Fin (a + b)"
| "np_add PInf NInf = NaN"
| "np_add NInf PInf = NaN"
| "np_add PInf _ = PInf"
| "np_add _ PInf = PInf"
| "np_add NInf _ = NInf"
| "np_add _ NInf = NInf"

definition np_sub :: "fval \<Rightarrow> fval \<Rightarrow> fval" where
  "np_sub a b = np_add a (np_neg b)"

text \<open>The sign of an infinite product or quotient: \<open>True\<close> for \<open>+inf\<close>.\<close>

definition inf_of_sign :: "bool \<Rightarrow> fval" where
  "inf_of_sign pos = (if pos then PInf else NInf)"

fun np_mul :: "fval \<Rightarrow> fval \<Rightarrow> fval" where
  "np_mul NaN _ = NaN"
| "np_mul _ NaN = NaN"
| "np_mul (Fin a) (Fin b) = Fin (a * b)"
| "np_mul (Fin a) PInf = (if a = 0 then NaN else inf_of_sign (0 < a))"
| "np_mul (Fin a) NInf = (if a = 0 then NaN else inf_of_sign (a < 0))"
| "np_mul PInf (Fin b) = (if b = 0 then NaN else inf_of_sign (0 < b))"
| "np_mul NInf (Fin b) = (if b = 0 then NaN else inf_of_sign (b < 0))"
| "np_mul PInf PInf = PInf"
| "np_mul NInf NInf = PInf"
| "np_mul PInf NInf = NInf"
| "np_mul NInf PInf = NInf"

text \<open>
  Array division (\<open>/\<close> on a CuPy array) raises nothing: a finite non-zero number over
  zero is an infinity and \<open>0 / 0\<close> is NaN.
\<close>

fun np_div :: "fval \<Rightarrow> fval \<Rightarrow> fval" where
  "np_div NaN _ = NaN"
| "np_div _ NaN = NaN"
| "np_div (Fin a) (Fin b) =
     (if b = 0 then (if a = 0 then NaN else inf_of_sign (0 < a)) else Fin (a / b))"
| "np_div (Fin a) PInf = Fin 0"
| "np_div (Fin a) NInf = Fin 0"
| "np_div PInf (Fin b) = inf_of_sign (0 \<le> b)"
| "np_div NInf (Fin b) = inf_of_sign (b < 0)"
| "np_div PInf PInf = NaN"
| "np_div PInf NInf = NaN"
| "np_div NInf PInf = NaN"
| "np_div NInf NInf = NaN"

fun np_lt :: "fval \<Rightarrow> fval \<Rightarrow> bool" where
  "np_lt NaN _ = False"
| "np_lt _ NaN = False"
| "np_lt (Fin a) (Fin b) = (a < b)"
| "np_lt NInf NInf = False"
| "np_lt NInf _ = True"
| "np_lt PInf _ = False"
| "np_lt (Fin a) PInf = True"
| "np_lt (Fin a) NInf = False"

definition np_gt :: "fval \<Rightarrow> fval \<Rightarrow> bool" where
  "np_gt a b = np_lt b a"


definition np_eq :: "fval \<Rightarrow> fval \<Rightarrow> bool" where
  "np_eq a b = (\<not> isnan a \<and> \<not> isnan b \<and> a = b)"

fun np_abs :: "fval \<Rightarrow> fval" where
  "np_abs NaN = NaN"
| "np_abs NInf = PInf"
| "np_abs (Fin a) = Fin \<bar>a\<bar>"
| "np_abs PInf = PInf"

fun np_sqrt :: "fval \<Rightarrow> fval" where
  "np_sqrt NaN = NaN"
| "np_sqrt NInf = NaN"
| "np_sqrt (Fin a) = (if a < 0 then NaN else Fin (sqrt a))"
| "np_sqrt PInf = PInf"

text \<open>
  \<open>cp.clip(x, lo, hi)\<close>, CuPy's kernel \<open>x < lo ? lo : (x > hi ? hi : x)\<close>: a NaN element
  stays NaN. A bound given as \<open>None\<close> is the infinity of its side.
\<close>

definition cp_clip :: "fval \<Rightarrow> fval \<Rightarrow> fval \<Rightarrow> fval" where
  "cp_clip x lo hi = (if np_lt x lo then lo else if np_lt hi x then hi else x)"

definition clip_lower :: "fval \<Rightarrow> fval \<Rightarrow> fval" where
  "clip_lower x lo = cp_clip x lo PInf"

definition clip_upper :: "fval \<Rightarrow> fval \<Rightarrow> fval" where
  "clip_upper x hi = cp_clip x NInf hi"

section \<open>Exceptions\<close>

text \<open>
  A raised exception is a value: its Python class and what its message is about. The
  message of the initial-guess error carries the guess, the image minimum and the image
  maximum; the window errors carry the offending window.
\<close>

datatype message =
    InitialGuessRange fval real real
  | InitialGuessType
  | ZeroSizeReduction
  | MathDomain
  | WeightsSumToZero
  | FloatDivisionByZero
  | BlockSizeLength
  | BlockSizeEven "int list"
  | InvalidMethod
  | GenericFilterTodo
  | WindowSize "int list"
  | OperandShapes
  | IndexOutOfBounds

datatype error =
    ValueError message
  | TypeError message
  | ZeroDivisionError message
  | NotImplementedError message
  | IndexError message

section \<open>Arrays\<close>

text \<open>
  An array is its dtype kind, its shape and its elements in row-major order. The kind
  says whether \<open>image.dtype.kind in 'iu'\<close> holds and, for a signed integer dtype, how many
  bits it has: \<open>IntKind\<close> is an unsigned integer dtype (kind \<open>'u'\<close>), \<open>SignedKind b\<close> the
  signed integer dtype of \<open>b\<close> bits (kind \<open>'i'\<close>), \<open>FloatKind\<close> a floating-point dtype.
\<close>

datatype dtype_kind = IntKind | FloatKind | SignedKind nat

definition is_integer_kind :: "dtype_kind \<Rightarrow> bool" where
  "is_integer_kind k = (case k of FloatKind \<Rightarrow> False | _ \<Rightarrow> True)"

text \<open>
  A value stored in an array of a signed integer dtype of \<open>b\<close> bits wraps around into
  \<open>[-2^(b-1), 2^(b-1))\<close>. The two results that \<open>threshold_li\<close> stores in the image's dtype
  (the shifted image and the maximum in the message of the range error) cannot leave
  the range of an unsigned dtype, and a floating-point result is taken exactly.
\<close>

definition wrap_signed :: "nat \<Rightarrow> real \<Rightarrow> real" where
  "wrap_signed b v = of_int ((\<lfloor>v\<rfloor> + 2 ^ (b - 1)) mod 2 ^ b - 2 ^ (b - 1))"

definition dtype_store :: "dtype_kind \<Rightarrow> real \<Rightarrow> real" where
  "dtype_store k v = (case k of SignedKind b \<Rightarrow> wrap_signed b v | _ \<Rightarrow> v)"

record ndarray =
  kind :: dtype_kind
  shape :: "nat list"
  data :: "fval list"

definition ndim :: "ndarray \<Rightarrow> nat" where
  "ndim a = length (shape a)"

text \<open>Boolean-mask indexing \<open>a[mask]\<close> of a flat array.\<close>

definition mask_select :: "bool list \<Rightarrow> 'a list \<Rightarrow> 'a list" where
  "mask_select sel xs = map snd (filter fst (zip sel xs))"

section \<open>Li's minimum cross-entropy threshold\<close>

subsection \<open>NumPy and Python primitives used by \<open>threshold_li\<close>\<close>

text \<open>\<open>image[~cp.isnan(image)]\<close>: the elements that are not NaN, flattened.\<close>

definition remove_nan :: "ndarray \<Rightarrow> fval list" where
  "remove_nan img = filter (\<lambda>x. \<not> isnan x) (data img)"

text \<open>\<open>image[cp.isfinite(image)]\<close>: the finite elements, as plain numbers.\<close>

fun finite_values :: "fval list \<Rightarrow> real list" where
  "finite_values [] = []"
| "finite_values (Fin r # xs) = r # finite_values xs"
| "finite_values (_ # xs) = finite_values xs"

text \<open>\<open>cp.unique\<close>: the sorted distinct elements; \<open>cp.diff\<close>: \<open>out[i] = a[i+1] - a[i]\<close>.\<close>

definition np_unique :: "'a::linorder list \<Rightarrow> 'a list" where
  "np_unique xs = sort (remdups xs)"

fun np_diff :: "real list \<Rightarrow> real list" where
  "np_diff (a # b # xs) = (b - a) # np_diff (b # xs)"
| "np_diff _ = []"

text \<open>\<open>cp.min\<close> has no identity: reducing an empty array raises \<open>ValueError\<close>.\<close>

definition np_min :: "real list \<Rightarrow> error + real" where
  "np_min xs = (if xs = [] then Inl (ValueError ZeroSizeReduction) else Inr (Min (set xs)))"

text \<open>\<open>cp.mean\<close>: the mean of an empty array is NaN (a warning, no exception).\<close>

definition np_mean :: "real list \<Rightarrow> fval" where
  "np_mean xs = (if xs = [] then NaN else Fin (sum_list xs / real (length xs)))"

text \<open>
  \<open>np.average(a, weights=w)\<close>: the weighted mean; weights that sum to zero (an empty
  selection among them) raise \<open>ZeroDivisionError\<close>.
\<close>

definition np_average :: "real list \<Rightarrow> real list \<Rightarrow> error + real" where
  "np_average a w =
     (if sum_list w = 0 then Inl (ZeroDivisionError WeightsSumToZero)
      else Inr (sum_list (map2 (*) a w) / sum_list w))"

text \<open>
  \<open>math.log\<close> on a Python float: a domain error for a non-positive argument.
  Python's \<open>/\<close> on floats raises on a zero divisor.
\<close>

fun math_log :: "fval \<Rightarrow> error + fval" where
  "math_log NaN = Inr NaN"
| "math_log PInf = Inr PInf"
| "math_log NInf = Inl (ValueError MathDomain)"
| "math_log (Fin a) = (if a \<le> 0 then Inl (ValueError MathDomain) else Inr (Fin (ln a)))"

definition py_truediv :: "fval \<Rightarrow> fval \<Rightarrow> error + fval" where
  "py_truediv a b =
     (if b = Fin 0 then Inl (ZeroDivisionError FloatDivisionByZero) else Inr (np_div a b))"

text \<open>\<open>np.finfo(float).eps\<close>, the machine epsilon of a double.\<close>

definition finfo_eps :: real where
  "finfo_eps = 1 / 2 ^ 52"

subsection \<open>The parameters\<close>

text \<open>
  \<open>initial_guess\<close> is \<open>None\<close>, a callable from the array of intensities to a number, a
  scalar, or some other object. The callable sees the shifted finite intensities.
\<close>

datatype initial_guess =
    NoGuess
  | Callable "real list \<Rightarrow> fval"
  | Scalar fval
  | OtherObject

subsection \<open>One update of the threshold\<close>

text \<open>
  The value \<open>(mean_back - mean_fore) / (log(mean_back + eps) - log(mean_fore + eps))\<close>
  as Python computes it, left to right: the logarithm of the background, the logarithm
  of the foreground, the division.
\<close>

definition li_quotient :: "fval \<Rightarrow> fval \<Rightarrow> error + fval" where
  "li_quotient mean_back mean_fore =
     (let eps = Fin (100 * finfo_eps) in
      case math_log (np_add mean_back eps) of
        Inl e \<Rightarrow> Inl e
      | Inr log_back \<Rightarrow>
          (case math_log (np_add mean_fore eps) of
             Inl e \<Rightarrow> Inl e
           | Inr log_fore \<Rightarrow>
               py_truediv (np_sub mean_back mean_fore) (np_sub log_back log_fore)))"

text \<open>
  The body of the loop for an integer image, on the histogram \<open>hist\<close> over \<open>bin_centers\<close>:
  \<open>foreground = bin_centers > t_curr\<close>, \<open>background = ~foreground\<close>, the two weighted
  means (the foreground first), the quotient.
\<close>

definition li_update_int :: "real list \<Rightarrow> real list \<Rightarrow> fval \<Rightarrow> error + fval" where
  "li_update_int hist bin_centers t_curr =
     (let foreground = map (\<lambda>c. np_gt (Fin c) t_curr) bin_centers;
          background = map Not foreground
      in case np_average (mask_select foreground bin_centers) (mask_select foreground hist) of
           Inl e \<Rightarrow> Inl e
         | Inr mean_fore \<Rightarrow>
             (case np_average (mask_select background bin_centers)
                     (mask_select background hist) of
                Inl e \<Rightarrow> Inl e
              | Inr mean_back \<Rightarrow> li_quotient (Fin mean_back) (Fin mean_fore)))"

text \<open>
  The body of the loop for a floating-point image, on the intensities themselves:
  \<open>foreground = image > t_curr\<close>, the means of \<open>image[foreground]\<close> and
  \<open>image[~foreground]\<close>, the quotient.
\<close>

definition li_update_float :: "real list \<Rightarrow> fval \<Rightarrow> error + fval" where
  "li_update_float img t_curr =
     (let foreground = map (\<lambda>x. np_gt (Fin x) t_curr) img;
          mean_fore = np_mean (mask_select foreground img);
          mean_back = np_mean (mask_select (map Not foreground) img)
      in li_quotient mean_back mean_fore)"

subsection \<open>The loops\<close>

text \<open>
  \<open>while abs(t_next - t_curr) > tolerance\<close> has no iteration cap, so the loops take
  fuel: \<open>None\<close> is a loop that did not finish within the fuel. A run yields the values
  passed to \<open>iter_callback\<close> (none when the callback is \<open>None\<close>), in order, and then the
  final \<open>t_next\<close> or the exception raised.
\<close>

definition li_callback :: "bool \<Rightarrow> fval \<Rightarrow> fval list \<Rightarrow> fval list" where
  "li_callback iter_callback v calls = (if iter_callback then calls @ [v] else calls)"

fun li_loop :: "nat \<Rightarrow> (fval \<Rightarrow> error + fval) \<Rightarrow> real \<Rightarrow> real \<Rightarrow> bool \<Rightarrow>
    fval \<Rightarrow> fval \<Rightarrow> fval list \<Rightarrow> (fval list \<times> (error + fval)) option" where
  "li_loop 0 update tolerance image_min iter_callback t_next t_curr calls =
     (if np_gt (np_abs (np_sub t_next t_curr)) (Fin tolerance) then None
      else Some (calls, Inr t_next))"
| "li_loop (Suc fuel) update tolerance image_min iter_callback t_next t_curr calls =
     (if np_gt (np_abs (np_sub t_next t_curr)) (Fin tolerance) then
        (case update t_next of
           Inl e \<Rightarrow> Some (calls, Inl e)
         | Inr t_new \<Rightarrow>
             li_loop fuel update tolerance image_min iter_callback t_new t_next
               (li_callback iter_callback (np_add t_new (Fin image_min)) calls))
      else Some (calls, Inr t_next))"

subsection \<open>Tolerance and initial guess\<close>

text \<open>
  \<open>tolerance = tolerance or 0.5\<close> for an integer image, and
  \<open>tolerance or float(cp.min(cp.diff(cp.unique(image))) / 2)\<close> otherwise. Python's \<open>or\<close>
  takes the right operand when the left is \<open>None\<close> or zero, and evaluates it only then.
\<close>

definition py_or_default :: "real option \<Rightarrow> real option" where
  "py_or_default tolerance =
     (case tolerance of None \<Rightarrow> None | Some t \<Rightarrow> if t = 0 then None else Some t)"

definition li_tolerance :: "dtype_kind \<Rightarrow> real list \<Rightarrow> real option \<Rightarrow> error + real" where
  "li_tolerance k img tolerance =
     (case py_or_default tolerance of
        Some t \<Rightarrow> Inr t
      | None \<Rightarrow>
          if is_integer_kind k then Inr (1 / 2)
          else (case np_min (np_diff (np_unique img)) of
                  Inl e \<Rightarrow> Inl e
                | Inr d \<Rightarrow> Inr (d / 2)))"

text \<open>
  The initial estimate, on the shifted image: its mean, the callable's value, or the
  scalar moved to the shifted range and checked by \<open>if not 0 < t_next < cp.max(image)\<close>.
  \<open>image_max = cp.max(image) + image_min\<close> adds two numbers of the image's dtype.
\<close>

definition li_initial_guess :: "dtype_kind \<Rightarrow> real list \<Rightarrow> real \<Rightarrow> initial_guess \<Rightarrow>
    error + fval" where
  "li_initial_guess k img image_min guess =
     (case guess of
        NoGuess \<Rightarrow> Inr (np_mean img)
      | Callable f \<Rightarrow> Inr (f img)
      | Scalar g \<Rightarrow>
          (let t_next = np_sub g (Fin image_min);
               image_max = dtype_store k (Max (set img) + image_min)
           in if \<not> (np_lt (Fin 0) t_next \<and> np_lt t_next (Fin (Max (set img))))
              then Inl (ValueError (InitialGuessRange g image_min image_max))
              else Inr t_next)
      | OtherObject \<Rightarrow> Inl (TypeError InitialGuessType))"

subsection \<open>\<open>threshold_li\<close>\<close>

text \<open>
  \<open>histogram\<close> is the histogram collaborator of \<open>cucim.skimage.exposure\<close>, called as
  \<open>histogram(image.reshape(-1), source_range='image')\<close>; it returns the counts and the bin
  centers. It is a parameter: its code is not part of these sources.

  The iteration from an initial estimate \<open>t_next\<close> on the shifted image:
  \<open>t_curr = -2 * tolerance\<close>, the callback on the initial estimate, the loop of the dtype
  kind, and \<open>threshold = t_next + image_min\<close>.
\<close>

definition li_run :: "nat \<Rightarrow> (real list \<Rightarrow> real list \<times> real list) \<Rightarrow> dtype_kind \<Rightarrow> real list \<Rightarrow>
    real \<Rightarrow> real \<Rightarrow> bool \<Rightarrow> fval \<Rightarrow> (fval list \<times> (error + fval)) option" where
  "li_run fuel histogram k img tol image_min iter_callback t_next =
     (let t_curr = Fin (- 2 * tol);
          calls = li_callback iter_callback (np_add t_next (Fin image_min)) [];
          update =
            (if is_integer_kind k
             then (case histogram img of (hist, bin_centers) \<Rightarrow> li_update_int hist bin_centers)
             else li_update_float img)
      in case li_loop fuel update tol image_min iter_callback t_next t_curr calls of
           None \<Rightarrow> None
         | Some (calls', Inl e) \<Rightarrow> Some (calls', Inl e)
         | Some (calls', Inr t_final) \<Rightarrow> Some (calls', Inr (np_add t_final (Fin image_min))))"

text \<open>
  The whole routine: the NaN are removed; an empty image gives NaN; an image of one
  value gives that value; the infinities are removed; an image with no finite value
  gives \<open>0.0\<close>; the image is shifted by its minimum, in place and so in its own dtype
  (\<open>image -= image_min\<close>); then the tolerance, the initial estimate and the iteration.
\<close>

definition threshold_li :: "nat \<Rightarrow> (real list \<Rightarrow> real list \<times> real list) \<Rightarrow> ndarray \<Rightarrow>
    real option \<Rightarrow> initial_guess \<Rightarrow> bool \<Rightarrow> (fval list \<times> (error + fval)) option" where
  "threshold_li fuel histogram img tolerance guess iter_callback =
     (let image1 = remove_nan img in
      if image1 = [] then Some ([], Inr NaN)
      else
        let val0 = hd image1 in
        if list_all (\<lambda>x. np_eq x val0) image1 then Some ([], Inr val0)
        else
          let image2 = finite_values image1 in
          if image2 = [] then Some ([], Inr (Fin 0))
          else
            let image_min = Min (set image2);
                image3 = map (\<lambda>x. dtype_store (kind img) (x - image_min)) image2
            in case li_tolerance (kind img) image3 tolerance of
                 Inl e \<Rightarrow> Some ([], Inl e)
               | Inr tol \<Rightarrow>
                   (case li_initial_guess (kind img) image3 image_min guess of
                      Inl e \<Rightarrow> Some ([], Inl e)
                    | Inr t_next \<Rightarrow>
                        li_run fuel histogram (kind img) image3 tol image_min iter_callback
                          t_next))"

text \<open>
  Modelled from the spec: the histogram collaborator (\<open>cucim.skimage.exposure.histogram\<close>,
  not part of these sources) on the flattened integer image with the \<open>image\<close> source
  range: one bin per integer from the observed minimum to the observed maximum, so no
  empty bin leads or trails; it returns the counts and the bin centers.
\<close>

definition histogram_image :: "real list \<Rightarrow> real list \<times> real list" where
  "histogram_image img =
     (let bin_centers = map of_int [\<lfloor>Min (set img)\<rfloor>..\<lfloor>Max (set img)\<rfloor>]
      in (map (\<lambda>c. real (count_list img c)) bin_centers, bin_centers))"

section \<open>Windowed mean and standard deviation\<close>

subsection \<open>Elementwise operations\<close>

definition arr_map :: "(fval \<Rightarrow> fval) \<Rightarrow> ndarray \<Rightarrow> ndarray" where
  "arr_map f a = a\<lparr>data := map f (data a)\<rparr>"

text \<open>
  A binary operation on two arrays. The arrays met here come from the same routine
  with the same shape; operands of different shapes are reported as the broadcast error.
\<close>

definition arr_map2 :: "(fval \<Rightarrow> fval \<Rightarrow> fval) \<Rightarrow> ndarray \<Rightarrow> ndarray \<Rightarrow> error + ndarray" where
  "arr_map2 f a b =
     (if shape a = shape b \<and> length (data a) = length (data b)
      then Inr (a\<lparr>data := map2 f (data a) (data b)\<rparr>)
      else Inl (ValueError OperandShapes))"

subsection \<open>Arithmetic in the working float type\<close>

text \<open>
  \<open>_mean_std\<close> and the two thresholds built on it compute on arrays of the working float
  type \<open>float_dtype = _supported_float_type(image.dtype)\<close>, single or double precision.
  An operation on such arrays whose exact result lies beyond the largest finite value
  of the type gives the infinity of its sign (overflow); a result within the range is
  taken exactly. Rounding and underflow, which keep a finite result finite, are left
  out; so is the band of half a unit in the last place beyond the largest finite value,
  which IEEE 754 still rounds to that value.
\<close>

datatype float_type = Float32 | Float64

definition finfo_max :: "float_type \<Rightarrow> real" where
  "finfo_max ft =
     (case ft of Float32 \<Rightarrow> (2 - 1 / 2 ^ 23) * 2 ^ 127 | Float64 \<Rightarrow> (2 - 1 / 2 ^ 52) * 2 ^ 1023)"

definition overflow :: "float_type \<Rightarrow> fval \<Rightarrow> fval" where
  "overflow ft x =
     (case x of
        Fin r \<Rightarrow> if finfo_max ft < r then PInf else if r < - finfo_max ft then NInf else Fin r
      | _ \<Rightarrow> x)"

definition fl_add :: "float_type \<Rightarrow> fval \<Rightarrow> fval \<Rightarrow> fval" where
  "fl_add ft a b = overflow ft (np_add a b)"

definition fl_sub :: "float_type \<Rightarrow> fval \<Rightarrow> fval \<Rightarrow> fval" where
  "fl_sub ft a b = overflow ft (np_sub a b)"

definition fl_mul :: "float_type \<Rightarrow> fval \<Rightarrow> fval \<Rightarrow> fval" where
  "fl_mul ft a b = overflow ft (np_mul a b)"

definition fl_div :: "float_type \<Rightarrow> fval \<Rightarrow> fval \<Rightarrow> fval" where
  "fl_div ft a b = overflow ft (np_div a b)"

subsection \<open>Collaborators\<close>

text \<open>
  The routines below call code that is not part of these sources: the choice of the
  working float type (\<open>_supported_float_type\<close>), the cast to it (\<open>astype(float_dtype)\<close>),
  \<open>cp.pad\<close> with \<open>mode='reflect'\<close>, \<open>integral_image\<close>, \<open>_correlate_sparse\<close>, \<open>dtype_limits\<close>,
  the filters behind \<open>threshold_local\<close>, \<open>ndi.label\<close> and \<open>_validate_window_size\<close>. They are
  parameters, so every property proved holds for any implementation of them (any
  rounding in the cast included).
\<close>

datatype sigma = SigmaTuple "real list" | SigmaParam real

record collaborators =
  supported_float_type :: "ndarray \<Rightarrow> float_type"
  astype_float :: "ndarray \<Rightarrow> ndarray"
  cp_pad :: "ndarray \<Rightarrow> (int \<times> int) list \<Rightarrow> ndarray"
  integral_image :: "ndarray \<Rightarrow> ndarray"
  correlate_sparse :: "ndarray \<Rightarrow> int list \<Rightarrow> int list list \<Rightarrow> int list \<Rightarrow> ndarray"
  dtype_limits :: "ndarray \<Rightarrow> real \<times> real"
  gaussian :: "ndarray \<Rightarrow> sigma \<Rightarrow> string \<Rightarrow> fval \<Rightarrow> ndarray"
  uniform_filter :: "ndarray \<Rightarrow> int list \<Rightarrow> string \<Rightarrow> fval \<Rightarrow> ndarray"
  median_filter :: "ndarray \<Rightarrow> int list \<Rightarrow> string \<Rightarrow> fval \<Rightarrow> ndarray"
  label :: "nat list \<Rightarrow> bool list \<Rightarrow> nat list \<times> nat"
  validate_window_size :: "int list \<Rightarrow> error + unit"

subsection \<open>The window\<close>

text \<open>A window is one integer or an iterable of integers (\<open>isinstance(w, Iterable)\<close>).\<close>

datatype window = WindowInt int | WindowSeq "int list"

definition window_sizes :: "ndarray \<Rightarrow> window \<Rightarrow> int list" where
  "window_sizes img w = (case w of WindowInt k \<Rightarrow> replicate (ndim img) k | WindowSeq ks \<Rightarrow> ks)"

subsection \<open>The sparse kernel\<close>

text \<open>\<open>itertools.product\<close>: the last position varies fastest.\<close>

fun itertools_product :: "'a list list \<Rightarrow> 'a list list" where
  "itertools_product [] = [[]]"
| "itertools_product (xs # xss) = concat (map (\<lambda>x. map ((#) x) (itertools_product xss)) xs)"

text \<open>
  \<open>kernel_indices = list(itertools.product(*tuple([(0, _w) for _w in w])))\<close> and
  \<open>kernel_values = [(-1) ** (image.ndim % 2 != np.sum(indices) % 2) for indices in
  kernel_indices]\<close>.
\<close>

definition kernel_indices :: "int list \<Rightarrow> int list list" where
  "kernel_indices w = itertools_product (map (\<lambda>w'. [0, w']) w)"

definition kernel_value :: "nat \<Rightarrow> int list \<Rightarrow> int" where
  "kernel_value n indices =
     (- 1) ^ (if int n mod 2 \<noteq> sum_list indices mod 2 then 1 else 0)"

definition kernel_values :: "nat \<Rightarrow> int list list \<Rightarrow> int list" where
  "kernel_values n indices_list = map (kernel_value n) indices_list"

subsection \<open>\<open>_mean_std\<close>\<close>

text \<open>
  The first part of \<open>_mean_std\<close>, up to the local mean \<open>m\<close> and the raw second moment
  \<open>g2\<close>: the window is validated before anything is computed. The squares
  \<open>padded *= padded\<close> and the divisions \<open>m /= total_window_size\<close>,
  \<open>g2 /= total_window_size\<close> are made in place, in the working float type.
\<close>

definition mean_std_moments :: "collaborators \<Rightarrow> ndarray \<Rightarrow> window \<Rightarrow> error + ndarray \<times> ndarray" where
  "mean_std_moments C img w0 =
     (let w = window_sizes img w0 in
      case validate_window_size C w of
        Inl e \<Rightarrow> Inl e
      | Inr _ \<Rightarrow>
          (let float_dtype = supported_float_type C img;
               pad_width = map (\<lambda>k. (k div 2 + 1, k div 2)) w;
               padded = cp_pad C (astype_float C img) pad_width;
               integral = integral_image C padded;
               padded_sq = arr_map (\<lambda>x. fl_mul float_dtype x x) padded;
               integral_sq = integral_image C padded_sq;
               indices = kernel_indices w;
               vals = kernel_values (ndim img) indices;
               total_window_size = prod_list w;
               kernel_shape = map (\<lambda>w'. w' + 1) w;
               m = arr_map (\<lambda>x. fl_div float_dtype x (Fin (of_int total_window_size)))
                     (astype_float C (correlate_sparse C integral kernel_shape indices vals));
               g2 = arr_map (\<lambda>x. fl_div float_dtype x (Fin (of_int total_window_size)))
                     (astype_float C (correlate_sparse C integral_sq kernel_shape indices vals))
           in Inr (m, g2)))"

text \<open>
  The second part: \<open>s = cp.clip(g2 - m * m, 0, None)\<close>, \<open>cp.sqrt(s, out=s)\<close>,
  \<open>return m, s\<close>.
\<close>

definition mean_std :: "collaborators \<Rightarrow> ndarray \<Rightarrow> window \<Rightarrow> error + ndarray \<times> ndarray" where
  "mean_std C img w0 =
     (case mean_std_moments C img w0 of
        Inl e \<Rightarrow> Inl e
      | Inr (m, g2) \<Rightarrow>
          (let float_dtype = supported_float_type C img in
           case arr_map2 (fl_sub float_dtype) g2 (arr_map (\<lambda>x. fl_mul float_dtype x x) m) of
             Inl e \<Rightarrow> Inl e
           | Inr v \<Rightarrow> Inr (m, arr_map np_sqrt (arr_map (\<lambda>x. clip_lower x (Fin 0)) v))))"

subsection \<open>Niblack and Sauvola\<close>

text \<open>
  \<open>m, s = _mean_std(image, window_size)\<close>, \<open>return m - k * s\<close>. The arrays \<open>m\<close> and \<open>s\<close> are
  of the working float type of the image, and so is the arithmetic on them.
\<close>

definition threshold_niblack :: "collaborators \<Rightarrow> ndarray \<Rightarrow> window \<Rightarrow> fval \<Rightarrow> error + ndarray" where
  "threshold_niblack C img window_size k =
     (case mean_std C img window_size of
        Inl e \<Rightarrow> Inl e
      | Inr (m, s) \<Rightarrow>
          (let float_dtype = supported_float_type C img in
           arr_map2 (fl_sub float_dtype) m (arr_map (\<lambda>x. fl_mul float_dtype k x) s)))"

text \<open>
  \<open>r\<close> defaults to half the range of the image's dtype;
  \<open>return m * (1 + k * ((s / r) - 1))\<close>.
\<close>

definition threshold_sauvola :: "collaborators \<Rightarrow> ndarray \<Rightarrow> window \<Rightarrow> fval \<Rightarrow> fval option \<Rightarrow>
    error + ndarray" where
  "threshold_sauvola C img window_size k r0 =
     (let r = (case r0 of
                 None \<Rightarrow> (case dtype_limits C img of (imin, imax) \<Rightarrow> Fin (0.5 * (imax - imin)))
               | Some r' \<Rightarrow> r')
      in case mean_std C img window_size of
           Inl e \<Rightarrow> Inl e
         | Inr (m, s) \<Rightarrow>
             (let float_dtype = supported_float_type C img in
              arr_map2 (fl_mul float_dtype) m
                (arr_map (\<lambda>x. fl_add float_dtype (Fin 1)
                           (fl_mul float_dtype k
                              (fl_sub float_dtype (fl_div float_dtype x r) (Fin 1)))) s)))"

section \<open>\<open>threshold_local\<close>\<close>

text \<open>\<open>block_size\<close> is a scalar (\<open>np.isscalar\<close>) or a sequence of integers.\<close>

datatype block_size = BlockInt int | BlockSeq "int list"

definition threshold_local :: "collaborators \<Rightarrow> ndarray \<Rightarrow> block_size \<Rightarrow> string \<Rightarrow> fval \<Rightarrow>
    string \<Rightarrow> real option \<Rightarrow> fval \<Rightarrow> error + ndarray" where
  "threshold_local C img block method_name offset mode param cval =
     (case (case block of
              BlockInt b \<Rightarrow> Inr (replicate (ndim img) b)
            | BlockSeq bs \<Rightarrow>
                if length bs \<noteq> ndim img then Inl (ValueError BlockSizeLength) else Inr bs) of
        Inl e \<Rightarrow> Inl e
      | Inr bs \<Rightarrow>
          if list_ex (\<lambda>b. b mod 2 = 0) bs then Inl (ValueError (BlockSizeEven bs))
          else
            (let img' = astype_float C img in
             if method_name = ''generic'' then Inl (NotImplementedError GenericFilterTodo)
             else if method_name = ''gaussian'' then
               (let sg = (case param of
                            None \<Rightarrow> SigmaTuple (map (\<lambda>b. (of_int b - 1) / 6) bs)
                          | Some p \<Rightarrow> SigmaParam p)
                in Inr (arr_map (\<lambda>x. np_sub x offset) (gaussian C img' sg mode cval)))
             else if method_name = ''mean'' then
               Inr (arr_map (\<lambda>x. np_sub x offset) (uniform_filter C img' bs mode cval))
             else if method_name = ''median'' then
               Inr (arr_map (\<lambda>x. np_sub x offset) (median_filter C img' bs mode cval))
             else Inl (ValueError InvalidMethod)))"

section \<open>Hysteresis thresholding\<close>

text \<open>
  \<open>low\<close> and \<open>high\<close> are numbers or arrays of the image's shape (given here flattened).
  \<open>cp.clip(low, a_min=None, a_max=high)\<close> clips elementwise, broadcast.
\<close>

datatype operand = Num fval | Arr "fval list"

fun clip_max :: "operand \<Rightarrow> operand \<Rightarrow> error + operand" where
  "clip_max (Num a) (Num b) = Inr (Num (clip_upper a b))"
| "clip_max (Num a) (Arr bs) = Inr (Arr (map (\<lambda>b. clip_upper a b) bs))"
| "clip_max (Arr as) (Num b) = Inr (Arr (map (\<lambda>a. clip_upper a b) as))"
| "clip_max (Arr as) (Arr bs) =
     (if length as = length bs then Inr (Arr (map2 clip_upper as bs))
      else Inl (ValueError OperandShapes))"

text \<open>\<open>image > t\<close> for a number or an array \<open>t\<close>.\<close>

fun greater_than :: "fval list \<Rightarrow> operand \<Rightarrow> error + bool list" where
  "greater_than xs (Num t) = Inr (map (\<lambda>x. np_gt x t) xs)"
| "greater_than xs (Arr ts) =
     (if length xs = length ts then Inr (map2 np_gt xs ts) else Inl (ValueError OperandShapes))"

text \<open>
  \<open>connected_to_high = cp.zeros((num_labels + 1,), bool)\<close>,
  \<open>connected_to_high[nonzero_sums] = True\<close>, \<open>thresholded = connected_to_high[labels_low]\<close>;
  an index past the end is an \<open>IndexError\<close>.
\<close>

definition hysteresis_lookup :: "nat list \<Rightarrow> nat \<Rightarrow> nat list \<Rightarrow> error + bool list" where
  "hysteresis_lookup labels_low num_labels nonzero_sums =
     (if list_ex (\<lambda>i. num_labels < i) nonzero_sums \<or> list_ex (\<lambda>i. num_labels < i) labels_low
      then Inl (IndexError IndexOutOfBounds)
      else
        (let connected_to_high =
               fold (\<lambda>i c. c[i := True]) nonzero_sums (replicate (num_labels + 1) False)
         in Inr (map (\<lambda>l. connected_to_high ! l) labels_low)))"

definition apply_hysteresis_threshold :: "collaborators \<Rightarrow> ndarray \<Rightarrow> operand \<Rightarrow> operand \<Rightarrow>
    error + bool list" where
  "apply_hysteresis_threshold C img low0 high =
     (case clip_max low0 high of
        Inl e \<Rightarrow> Inl e
      | Inr low \<Rightarrow>
          (case greater_than (data img) low of
             Inl e \<Rightarrow> Inl e
           | Inr mask_low \<Rightarrow>
               (case greater_than (data img) high of
                  Inl e \<Rightarrow> Inl e
                | Inr mask_high \<Rightarrow>
                    (case label C (shape img) mask_low of
                       (labels_low, num_labels) \<Rightarrow>
                         hysteresis_lookup labels_low num_labels
                           (np_unique (mask_select mask_high labels_low))))))"

section \<open>Reference collaborators\<close>

text \<open>
  Concrete collaborators, used to run the routines on concrete images. An array is
  read at a multi-index through its row-major offset and built by tabulating a function
  over all multi-indices of a shape. The images they are run on below are constant, or
  periodic with the period of the window once extended by reflection, so that the local
  statistics do not depend on where a window sits.
\<close>

fun ravel_index :: "nat list \<Rightarrow> nat list \<Rightarrow> nat" where
  "ravel_index (n # ns) (i # is) = i * prod_list ns + ravel_index ns is"
| "ravel_index _ _ = 0"

definition elem_at :: "ndarray \<Rightarrow> nat list \<Rightarrow> fval" where
  "elem_at a idx =
     (let k = ravel_index (shape a) idx in if k < length (data a) then data a ! k else NaN)"

definition tabulate :: "nat list \<Rightarrow> (nat list \<Rightarrow> fval) \<Rightarrow> ndarray" where
  "tabulate sh f =
     \<lparr>kind = FloatKind, shape = sh, data = map f (itertools_product (map (\<lambda>n. [0..<n]) sh))\<rparr>"

text \<open>
  Modelled from the spec: the padded image, enlarged per axis by \<open>(w//2 + 1, w//2)\<close>
  elements using reflective boundary extension (the edge element is not repeated).
\<close>

definition reflect_index :: "nat \<Rightarrow> int \<Rightarrow> nat" where
  "reflect_index n i =
     (if n \<le> 1 then 0
      else (let p = 2 * (int n - 1); j = i mod p in nat (if j < int n then j else p - j)))"

definition ref_pad :: "ndarray \<Rightarrow> (int \<times> int) list \<Rightarrow> ndarray" where
  "ref_pad a pad_width =
     tabulate (map2 (\<lambda>n (pad_lo, pad_hi). nat (pad_lo + int n + pad_hi)) (shape a) pad_width)
       (\<lambda>idx. elem_at a (map2 (\<lambda>(n, (pad_lo, pad_hi)) i. reflect_index n (int i - pad_lo))
                            (zip (shape a) pad_width) idx))"

text \<open>
  Modelled from the spec: the integral image, of the shape of its source plus one in
  each dimension, whose element at multi-index \<open>i\<close> is the sum of all source elements with
  indices strictly less than \<open>i\<close> in every axis.
\<close>

definition ref_integral_image :: "ndarray \<Rightarrow> ndarray" where
  "ref_integral_image a =
     tabulate (map Suc (shape a))
       (\<lambda>idx. fold (\<lambda>j acc. np_add acc (elem_at a j))
                 (itertools_product (map (\<lambda>i. [0..<i]) idx)) (Fin 0))"

text \<open>
  Modelled from the spec: the sparse kernel correlator, whose output element at a
  position is the sum over the kernel terms of \<open>sign * integral[position + corner]\<close>.
\<close>

definition ref_correlate_sparse :: "ndarray \<Rightarrow> int list \<Rightarrow> int list list \<Rightarrow> int list \<Rightarrow> ndarray" where
  "ref_correlate_sparse integral kernel_shape indices vals =
     tabulate (map2 (\<lambda>n k. nat (int n - k)) (shape integral) kernel_shape)
       (\<lambda>pos. fold (\<lambda>(corner, sign) acc.
                  np_add acc (np_mul (Fin (of_int sign))
                    (elem_at integral (map2 (\<lambda>p c. nat (int p + c)) pos corner))))
               (zip indices vals) (Fin 0))"

text \<open>
  Modelled from the spec: \<open>_validate_window_size\<close> of \<open>cucim.skimage.filters._sparse\<close>
  (not part of these sources), the validation collaborator that rejects even or
  non-positive window dimensions with a validation error naming the offending window.
\<close>

definition ref_validate_window_size :: "int list \<Rightarrow> error + unit" where
  "ref_validate_window_size w =
     (if list_ex (\<lambda>axis_size. axis_size mod 2 = 0 \<or> axis_size \<le> 0) w
      then Inl (ValueError (WindowSize w)) else Inr ())"

text \<open>
  Modelled from the spec: the connected-component collaborator, which labels the
  connected regions of a boolean mask, for a one-dimensional mask: the maximal runs
  of selected pixels are numbered \<open>1, 2, ...\<close> from the left, the other pixels get \<open>0\<close>.
\<close>

fun label_runs :: "bool list \<Rightarrow> bool \<Rightarrow> nat \<Rightarrow> nat list \<times> nat" where
  "label_runs [] prev n = ([], n)"
| "label_runs (b # bs) prev n =
     (if b then
        (let n' = (if prev then n else n + 1) in
         case label_runs bs True n' of (ls, k) \<Rightarrow> (n' # ls, k))
      else (case label_runs bs False n of (ls, k) \<Rightarrow> (0 # ls, k)))"

definition ref_label :: "nat list \<Rightarrow> bool list \<Rightarrow> nat list \<times> nat" where
  "ref_label sh sel = label_runs sel False 0"

text \<open>
  The remaining collaborators: the working float type of a single-precision image
  (itself) and of an integer image (double precision), an exact cast, the dtype range
  of an 8-bit unsigned, of a signed or of a float image, and filters that return their
  input.
\<close>

definition ref_supported_float_type :: "ndarray \<Rightarrow> float_type" where
  "ref_supported_float_type a = (if kind a = FloatKind then Float32 else Float64)"

definition ref_astype_float :: "ndarray \<Rightarrow> ndarray" where
  "ref_astype_float a = a\<lparr>kind := FloatKind\<rparr>"

definition ref_dtype_limits :: "ndarray \<Rightarrow> real \<times> real" where
  "ref_dtype_limits a =
     (case kind a of
        IntKind \<Rightarrow> (0, 255)
      | SignedKind b \<Rightarrow> (- (2 ^ (b - 1)), 2 ^ (b - 1) - 1)
      | FloatKind \<Rightarrow> (- 1, 1))"


definition ref_filter :: "ndarray \<Rightarrow> 'a \<Rightarrow> string \<Rightarrow> fval \<Rightarrow> ndarray" where
  "ref_filter a size_or_sigma mode cval = a"

definition ref_collab :: collaborators where
  "ref_collab =
     \<lparr>supported_float_type = ref_supported_float_type,
      astype_float = ref_astype_float, cp_pad = ref_pad, integral_image = ref_integral_image,
      correlate_sparse = ref_correlate_sparse, dtype_limits = ref_dtype_limits,
      gaussian = ref_filter, uniform_filter = ref_filter, median_filter = ref_filter,
      label = ref_label, validate_window_size = ref_validate_window_size\<rparr>"


section \<open>Notions used to state the properties\<close>

text \<open>
  A corner of the hyper-rectangle of a window \<open>w\<close> chooses \<open>0\<close> or \<open>w_i\<close> on every axis;
  a coordinate is far when it is not \<open>0\<close>.
\<close>

definition is_corner :: "int list \<Rightarrow> int list \<Rightarrow> bool" where
  "is_corner w corner = list_all2 (\<lambda>c w'. c = 0 \<or> c = w') corner w"

definition far_count :: "int list \<Rightarrow> nat" where
  "far_count corner = length (filter (\<lambda>c. c \<noteq> 0) corner)"








text \<open>
  A non-degenerate image is one that passes the three early returns of
  \<open>threshold_li\<close>; it has a minimum over its finite values and a shifted image.
\<close>

definition li_shifted :: "ndarray \<Rightarrow> (real \<times> real list) option" where
  "li_shifted img =
     (let image1 = remove_nan img; image2 = finite_values image1 in
      if image1 = [] \<or> list_all (\<lambda>x. np_eq x (hd image1)) image1 \<or> image2 = [] then None
      else Some (Min (set image2),
             map (\<lambda>x. dtype_store (kind img) (x - Min (set image2))) image2))"

text \<open>
  The validation error of the initial guess, and the exceptions that the loop bodies
  can raise.
\<close>

definition is_guess_range_error :: "error \<Rightarrow> bool" where
  "is_guess_range_error e =
     (case e of ValueError (InitialGuessRange g lo hi) \<Rightarrow> True | _ \<Rightarrow> False)"

definition loop_errors :: "error set" where
  "loop_errors = {ZeroDivisionError WeightsSumToZero, ZeroDivisionError FloatDivisionByZero,
     ValueError MathDomain}"

section \<open>Example inputs\<close>

text \<open>A constant integer image of three pixels, used to run the routines.\<close>

definition const5 :: ndarray where
  "const5 = \<lparr>kind = IntKind, shape = [3], data = [Fin 5, Fin 5, Fin 5]\<rparr>"

text \<open>
  An image of six pixels whose reflective extension has period five, so that every
  window of five pixels holds one \<open>1\<close> and four \<open>0\<close>, wherever it sits: the local mean is
  \<open>1/5\<close> and the local standard deviation \<open>2/5\<close> at every pixel.
\<close>

definition image_100001 :: ndarray where
  "image_100001 = \<lparr>kind = IntKind, shape = [6],
     data = [Fin 1, Fin 0, Fin 0, Fin 0, Fin 0, Fin 1]\<rparr>"

text \<open>
  A constant single-precision image of three finite pixels \<open>2^64\<close>, whose squares are
  beyond the largest single-precision number; and a constant image of two pixels \<open>3/4\<close>.
\<close>

definition huge3 :: ndarray where
  "huge3 = \<lparr>kind = FloatKind, shape = [3], data = [Fin (2 ^ 64), Fin (2 ^ 64), Fin (2 ^ 64)]\<rparr>"


text \<open>Three small images for \<open>threshold_li\<close>: two ordinary ones and one with an infinity.\<close>

definition image_1334 :: ndarray where
  "image_1334 = \<lparr>kind = IntKind, shape = [4], data = [Fin 1, Fin 3, Fin 3, Fin 4]\<rparr>"

definition image_1_inf :: ndarray where
  "image_1_inf = \<lparr>kind = FloatKind, shape = [2], data = [Fin 1, PInf]\<rparr>"

definition image_134 :: ndarray where
  "image_134 = \<lparr>kind = FloatKind, shape = [3], data = [Fin 1, Fin 3, Fin 4]\<rparr>"

text \<open>The image of the example in the docstring of \<open>apply_hysteresis_threshold\<close>.\<close>

definition docstring_image :: ndarray where
  "docstring_image = \<lparr>kind = IntKind, shape = [9],
     data = [Fin 1, Fin 2, Fin 3, Fin 2, Fin 1, Fin 2, Fin 1, Fin 3, Fin 2]\<rparr>"

section \<open>Properties of \<open>threshold_li\<close>\<close>

subsection \<open>Auxiliary facts\<close>

lemma finite_values_empty: "finite_values xs = [] \<longleftrightarrow> (\<forall>x\<in>set xs. \<not> isfinite x)"
  by (induction xs rule: finite_values.induct) (auto simp: isfinite_def)

lemma set_finite_values: "set (finite_values xs) = {r. Fin r \<in> set xs}"
  by (induction xs rule: finite_values.induct) auto

lemma remove_nan_no_nan: "\<forall>x\<in>set (remove_nan img). \<not> isnan x"
  by (simp add: remove_nan_def)

lemma all_eq_hd:
  assumes "xs \<noteq> []" "\<forall>x\<in>set xs. \<not> isnan x"
  shows "list_all (\<lambda>x. np_eq x (hd xs)) xs \<longleftrightarrow> (\<forall>x\<in>set xs. x = hd xs)"
  using assms by (auto simp: list_all_iff np_eq_def)

subsection \<open>Degenerate images\<close>

text \<open>
  Claim C4. \<open>threshold_li\<close> returns early on degenerate images, whatever the tolerance,
  the initial guess, the callback and the fuel are, and without calling the callback:
  an image with no element left after the NaN are removed gives NaN; an image whose
  remaining elements all equal one value \<open>v\<close> (an infinity included) gives \<open>v\<close>; an image
  whose remaining elements include both infinities and no finite number gives \<open>0.0\<close>.
\<close>

theorem threshold_li_degenerate:
  "(remove_nan img = [] \<longrightarrow>
      threshold_li fuel histogram img tolerance guess cb = Some ([], Inr NaN))
   \<and> (remove_nan img \<noteq> [] \<and> (\<forall>x\<in>set (remove_nan img). x = v) \<longrightarrow>
      threshold_li fuel histogram img tolerance guess cb = Some ([], Inr v))
   \<and> (PInf \<in> set (remove_nan img) \<and> NInf \<in> set (remove_nan img) \<and>
        (\<forall>x\<in>set (remove_nan img). \<not> isfinite x) \<longrightarrow>
      threshold_li fuel histogram img tolerance guess cb = Some ([], Inr (Fin 0)))"
proof (intro conjI impI)
  assume "remove_nan img = []"
  then show "threshold_li fuel histogram img tolerance guess cb = Some ([], Inr NaN)"
    by (simp add: threshold_li_def)
next
  assume a: "remove_nan img \<noteq> [] \<and> (\<forall>x\<in>set (remove_nan img). x = v)"
  then have hd: "hd (remove_nan img) = v"
    by (metis hd_in_set)
  have ne: "remove_nan img \<noteq> []"
    using a by simp
  have "list_all (\<lambda>x. np_eq x (hd (remove_nan img))) (remove_nan img)"
    using a hd remove_nan_no_nan [of img] all_eq_hd [of "remove_nan img"] by metis
  then have "threshold_li fuel histogram img tolerance guess cb =
      Some ([], Inr (hd (remove_nan img)))"
    using ne by (simp add: threshold_li_def Let_def)
  then show "threshold_li fuel histogram img tolerance guess cb = Some ([], Inr v)"
    using hd by simp
next
  assume a: "PInf \<in> set (remove_nan img) \<and> NInf \<in> set (remove_nan img) \<and>
        (\<forall>x\<in>set (remove_nan img). \<not> isfinite x)"
  then have ne: "remove_nan img \<noteq> []" by auto
  have "\<not> (\<forall>x\<in>set (remove_nan img). x = hd (remove_nan img))"
  proof
    assume h: "\<forall>x\<in>set (remove_nan img). x = hd (remove_nan img)"
    from a h have "PInf = hd (remove_nan img)" and "NInf = hd (remove_nan img)" by blast+
    then show False by simp
  qed
  then have "\<not> list_all (\<lambda>x. np_eq x (hd (remove_nan img))) (remove_nan img)"
    using ne remove_nan_no_nan [of img] by (simp add: all_eq_hd)
  moreover have "finite_values (remove_nan img) = []"
    using a by (simp add: finite_values_empty)
  ultimately show "threshold_li fuel histogram img tolerance guess cb = Some ([], Inr (Fin 0))"
    using ne by (simp add: threshold_li_def Let_def)
qed

theorem threshold_li_degenerate_witness:
  "remove_nan \<lparr>kind = FloatKind, shape = [2], data = [NaN, NaN]\<rparr> = []
   \<and> threshold_li 0 histogram_image \<lparr>kind = FloatKind, shape = [2], data = [NaN, NaN]\<rparr>
        None NoGuess True = Some ([], Inr NaN)
   \<and> remove_nan \<lparr>kind = FloatKind, shape = [3], data = [PInf, NaN, PInf]\<rparr> = [PInf, PInf]
   \<and> threshold_li 0 histogram_image \<lparr>kind = FloatKind, shape = [3], data = [PInf, NaN, PInf]\<rparr>
        None NoGuess True = Some ([], Inr PInf)
   \<and> remove_nan \<lparr>kind = FloatKind, shape = [3], data = [PInf, NaN, NInf]\<rparr> = [PInf, NInf]
   \<and> threshold_li 0 histogram_image \<lparr>kind = FloatKind, shape = [3], data = [PInf, NaN, NInf]\<rparr>
        None NoGuess True = Some ([], Inr (Fin 0))"
proof -
  have r1: "remove_nan \<lparr>kind = FloatKind, shape = [2], data = [NaN, NaN]\<rparr> = []"
    by (simp add: remove_nan_def isnan_def)
  have r2: "remove_nan \<lparr>kind = FloatKind, shape = [3], data = [PInf, NaN, PInf]\<rparr> = [PInf, PInf]"
    by (simp add: remove_nan_def isnan_def)
  have r3: "remove_nan \<lparr>kind = FloatKind, shape = [3], data = [PInf, NaN, NInf]\<rparr> = [PInf, NInf]"
    by (simp add: remove_nan_def isnan_def)
  show ?thesis
    using threshold_li_degenerate
      [where img = "\<lparr>kind = FloatKind, shape = [2], data = [NaN, NaN]\<rparr>" and fuel = 0
         and histogram = histogram_image and tolerance = None and guess = NoGuess and cb = True]
      threshold_li_degenerate
      [where img = "\<lparr>kind = FloatKind, shape = [3], data = [PInf, NaN, PInf]\<rparr>" and v = PInf
         and fuel = 0 and histogram = histogram_image and tolerance = None and guess = NoGuess
         and cb = True]
      threshold_li_degenerate
      [where img = "\<lparr>kind = FloatKind, shape = [3], data = [PInf, NaN, NInf]\<rparr>" and fuel = 0
         and histogram = histogram_image and tolerance = None and guess = NoGuess and cb = True]
    by (simp add: r1 r2 r3 isfinite_def)
qed

section \<open>Properties of the windowed statistics\<close>

subsection \<open>The sparse kernel\<close>

lemma itertools_product_eq: "itertools_product xss = product_lists xss"
  by (induction xss) simp_all

lemma validate_window_size_ok:
  "ref_validate_window_size w = Inr u \<longleftrightarrow> (\<forall>x\<in>set w. odd x \<and> 0 < x)"
proof -
  have "(\<exists>x\<in>set w. x mod 2 = 0 \<or> x \<le> 0) \<longleftrightarrow> \<not> (\<forall>x\<in>set w. odd x \<and> 0 < x)"
    by (simp add: even_iff_mod_2_eq_zero not_less)
  then show ?thesis
    by (simp add: ref_validate_window_size_def list_ex_iff)
qed

lemma set_kernel_indices: "set (kernel_indices w) = {c. is_corner w c}"
  unfolding kernel_indices_def itertools_product_eq product_lists_set is_corner_def
  by (auto simp: list_all2_map2 elim!: list_all2_mono)

lemma length_kernel_indices: "length (kernel_indices w) = 2 ^ length w"
  unfolding kernel_indices_def by (induction w) (simp_all add: length_concat o_def)

lemma distinct_kernel_indices:
  assumes "\<forall>x\<in>set w. x \<noteq> 0"
  shows "distinct (kernel_indices w)"
  unfolding kernel_indices_def itertools_product_eq
  using assms by (intro distinct_product_lists) auto

lemma corner_parity:
  assumes "is_corner w c" "\<forall>x\<in>set w. odd x"
  shows "sum_list c mod 2 = int (far_count c) mod 2"
  using assms unfolding is_corner_def
proof (induction c w rule: list_all2_induct)
  case Nil
  then show ?case by (simp add: far_count_def)
next
  case (Cons x xs y ys)
  then have ih: "sum_list xs mod 2 = int (far_count xs) mod 2" by simp
  from Cons have "odd y" by simp
  show ?case
  proof (cases "x = 0")
    case True
    then show ?thesis using ih by (simp add: far_count_def)
  next
    case False
    with Cons have "x = y" by simp
    with \<open>odd y\<close> have "odd x" by simp
    have "far_count (x # xs) = Suc (far_count xs)" using False by (simp add: far_count_def)
    moreover have "(x + sum_list xs) mod 2 = (1 + sum_list xs mod 2) mod 2"
      using \<open>odd x\<close> by presburger
    ultimately show ?thesis using ih by (simp; presburger)
  qed
qed

lemma kernel_value_sign:
  assumes "is_corner w c" "\<forall>x\<in>set w. odd x"
  shows "kernel_value n c = (if even (far_count c) = even n then 1 else - 1)"
proof -
  have "(int n mod 2 \<noteq> sum_list c mod 2) = (even (far_count c) \<noteq> even n)"
    using corner_parity [OF assms] by presburger
  then show ?thesis by (simp add: kernel_value_def)
qed

text \<open>
  Claim C2. For an image of dimensionality \<open>ndim\<close> and a valid window (every size odd
  and positive, one size per axis), the kernel that
  \<open>_mean_std\<close> hands to the sparse correlator has exactly \<open>2 ^ ndim\<close> terms, they are
  pairwise different, they are exactly the corners of the hyper-rectangle (\<open>0\<close> or \<open>w_i\<close>
  on each axis), and the value of each term is \<open>+1\<close> when the number of far coordinates
  of its corner has the parity of \<open>ndim\<close> and \<open>-1\<close> otherwise.
\<close>

theorem mean_std_kernel:
  assumes "\<forall>k\<in>set (window_sizes img w0). odd k \<and> 0 < k"
    and "length (window_sizes img w0) = ndim img"
  shows "length (kernel_indices (window_sizes img w0)) = 2 ^ ndim img
    \<and> distinct (kernel_indices (window_sizes img w0))
    \<and> set (kernel_indices (window_sizes img w0)) = {c. is_corner (window_sizes img w0) c}
    \<and> kernel_values (ndim img) (kernel_indices (window_sizes img w0)) =
        map (\<lambda>c. if even (far_count c) = even (ndim img) then 1 else - 1)
          (kernel_indices (window_sizes img w0))"
proof -
  let ?w = "window_sizes img w0"
  from assms(1) have nz: "\<forall>x\<in>set ?w. x \<noteq> 0" and od: "\<forall>x\<in>set ?w. odd x"
    by auto
  have "length (kernel_indices ?w) = 2 ^ ndim img"
    using assms(2) by (simp add: length_kernel_indices)
  moreover have "distinct (kernel_indices ?w)"
    using nz by (rule distinct_kernel_indices)
  moreover have "set (kernel_indices ?w) = {c. is_corner ?w c}"
    by (rule set_kernel_indices)
  moreover have "kernel_values (ndim img) (kernel_indices ?w) =
      map (\<lambda>c. if even (far_count c) = even (ndim img) then 1 else - 1) (kernel_indices ?w)"
    unfolding kernel_values_def
  proof (rule map_cong [OF refl])
    fix c assume "c \<in> set (kernel_indices ?w)"
    then have "is_corner ?w c" by (simp add: set_kernel_indices)
    then show "kernel_value (ndim img) c = (if even (far_count c) = even (ndim img) then 1 else - 1)"
      using od by (rule kernel_value_sign)
  qed
  ultimately show ?thesis by simp
qed

theorem mean_std_kernel_witness:
  "window_sizes \<lparr>kind = IntKind, shape = [2, 2], data = [Fin 1, Fin 2, Fin 3, Fin 4]\<rparr>
      (WindowSeq [1, 3]) = [1, 3]
   \<and> list_all (\<lambda>k. odd k \<and> 0 < k) [1, 3 :: int]
   \<and> kernel_indices [1, 3] = [[0, 0], [0, 3], [1, 0], [1, 3]]
   \<and> length (kernel_indices [1, 3]) = 2 ^ 2
   \<and> distinct (kernel_indices [1, 3])
   \<and> set (kernel_indices [1, 3]) = {c. is_corner [1, 3] c}
   \<and> kernel_values 2 (kernel_indices [1, 3]) = [1, - 1, - 1, 1]"
proof -
  let ?img = "\<lparr>kind = IntKind, shape = [2, 2], data = [Fin 1, Fin 2, Fin 3, Fin 4]\<rparr>"
  have w: "window_sizes ?img (WindowSeq [1, 3]) = [1, 3]"
    by (simp add: window_sizes_def)
  have v: "\<forall>k\<in>set [1, 3 :: int]. odd k \<and> 0 < k"
    by simp
  have n: "ndim ?img = 2"
    by (simp add: ndim_def)
  have k: "kernel_indices [1, 3] = [[0, 0], [0, 3], [1, 0], [1, 3]]"
    by (simp add: kernel_indices_def)
  have f: "map (\<lambda>c. if even (far_count c) = even (2::nat) then 1 else - 1)
      [[0, 0], [0, 3], [1, 0], [1, 3::int]] = [1, - 1, - 1, 1::int]"
    by (simp add: far_count_def)
  show ?thesis
    using mean_std_kernel [where img = ?img and ?w0.0 = "WindowSeq [1, 3]"]
    by (simp add: w v n k f far_count_def)
qed

subsection \<open>The working float type\<close>

lemma finfo_max_ge: "2 ^ 32 \<le> finfo_max ft"
  by (cases ft) (simp_all add: finfo_max_def)

text \<open>
  Code equations that give the largest finite values as numerals and spare the range
  test on small numbers.
\<close>

lemma finfo_max_code [code]:
  "finfo_max ft =
     (case ft of
        Float32 \<Rightarrow> 340282346638528859811704183484516925440
      | Float64 \<Rightarrow> 179769313486231570814527423731704356798070567525844996598917476803157260780028538760589558632766878171540458953514382464234321326889464182768467546703537516986049910576551282076245490090389328944075868508455133942304583236903222948165808559332123348274797826204144723168738177180919299881250404026184124858368)"
  by (cases ft) (simp_all add: finfo_max_def)

lemma overflow_code [code]:
  "overflow ft x =
     (case x of
        Fin r \<Rightarrow>
          if \<bar>r\<bar> \<le> 4294967296 then Fin r
          else if finfo_max ft < r then PInf else if r < - finfo_max ft then NInf else Fin r
      | _ \<Rightarrow> x)"
  using finfo_max_ge [of ft] by (cases x) (auto simp: overflow_def)

lemma overflow_small: "\<bar>r\<bar> \<le> 2 ^ 32 \<Longrightarrow> overflow ft (Fin r) = Fin r"
  using finfo_max_ge [of ft] by (auto simp: overflow_def)

lemma overflow_special [simp]:
  "overflow ft NaN = NaN" "overflow ft PInf = PInf" "overflow ft NInf = NInf"
  by (simp_all add: overflow_def)

lemma overflow_idem: "overflow ft (overflow ft x) = overflow ft x"
  by (cases x) (simp_all add: overflow_def)

lemma overflow_in_range:
  "overflow ft (Fin r) = Fin r' \<longleftrightarrow> r' = r \<and> - finfo_max ft \<le> r \<and> r \<le> finfo_max ft"
  by (auto simp: overflow_def)

lemma sqrt_le_max: "0 \<le> x \<Longrightarrow> sqrt x \<le> max 1 x"
proof (cases "x \<le> 1")
  case True
  then have "sqrt x \<le> 1" by simp
  then show ?thesis by simp
next
  case False
  assume "0 \<le> x"
  from False have "x \<le> x * x" by simp
  then have "sqrt x \<le> sqrt (x * x)" by (simp only: real_sqrt_le_iff)
  with \<open>0 \<le> x\<close> have "sqrt x \<le> x" by simp
  then show ?thesis by simp
qed

subsection \<open>The standard deviation\<close>

lemma np_sub_zero [simp]: "np_sub a (Fin 0) = a"
  by (cases a) (simp_all add: np_sub_def)

lemma np_mul_one [simp]: "np_mul a (Fin 1) = a"
  by (cases a) (simp_all add: inf_of_sign_def)

lemma isfinite_iff: "isfinite x \<longleftrightarrow> (\<exists>r. x = Fin r)"
  by (cases x) (simp_all add: isfinite_def)


lemma clip_sqrt_in_range:
  assumes "np_sqrt (clip_lower (overflow ft y) (Fin 0)) = Fin r"
  shows "0 \<le> r \<and> r \<le> finfo_max ft"
proof -
  have one: "1 \<le> finfo_max ft" using finfo_max_ge [of ft] by simp
  show ?thesis
  proof (cases y)
  case (Fin a)
  show ?thesis
  proof (cases "a < 0")
    case True
    with assms Fin have "r = 0"
      by (auto simp: overflow_def clip_lower_def cp_clip_def split: if_splits)
    with one show ?thesis by simp
  next
    case False
    with assms Fin have r: "r = sqrt a" and a: "a \<le> finfo_max ft"
      by (auto simp: overflow_def clip_lower_def cp_clip_def split: if_splits)
    from False have "sqrt a \<le> max 1 a" by (intro sqrt_le_max) simp
    with r a one False show ?thesis by simp
  qed
  qed (use assms one in \<open>simp_all add: clip_lower_def cp_clip_def\<close>)
qed


lemma map2_same_left:
  assumes "length xs = length ys" "\<forall>(x, y)\<in>set (zip xs ys). f x y = x"
  shows "map2 f xs ys = xs"
  using assms by (induction xs ys rule: list_induct2) auto

lemma mean_std_shape:
  assumes "mean_std C img w0 = Inr (m, s)"
  shows "shape s = shape m \<and> length (data s) = length (data m)"
  using assms
  by (auto simp: mean_std_def arr_map2_def arr_map_def Let_def
      split: sum.splits prod.splits if_splits)

lemma mean_std_data:
  assumes "mean_std_moments C img w0 = Inr (m, g2)" "mean_std C img w0 = Inr (m', s)"
  shows "m' = m \<and> length (data g2) = length (data m) \<and>
     data s = map2 (\<lambda>a b. np_sqrt (clip_lower (fl_sub (supported_float_type C img) a
                (fl_mul (supported_float_type C img) b b)) (Fin 0))) (data g2) (data m)"
  using assms
  by (auto simp: mean_std_def arr_map2_def arr_map_def zip_map2 Let_def
      split: sum.splits prod.splits if_splits)

lemma moments_in_range:
  assumes "mean_std_moments C img w0 = Inr (m, g2)"
  shows "\<forall>x\<in>set (data m). overflow (supported_float_type C img) x = x"
    and "\<forall>x\<in>set (data g2). overflow (supported_float_type C img) x = x"
  using assms
  by (auto simp: mean_std_moments_def Let_def arr_map_def fl_div_def overflow_idem
      split: sum.splits)

lemma sqrt_4_25: "sqrt (4 / 25) = 2 / 5"
  by (rule real_sqrt_unique) (simp_all add: power2_eq_square)

lemma const5_moments:
  "mean_std_moments ref_collab const5 (WindowInt 3) =
     Inr (\<lparr>kind = FloatKind, shape = [3], data = [Fin 5, Fin 5, Fin 5]\<rparr>,
          \<lparr>kind = FloatKind, shape = [3], data = [Fin 25, Fin 25, Fin 25]\<rparr>)"
  by code_simp

lemma const5_mean_std:
  "mean_std ref_collab const5 (WindowInt 3) =
     Inr (\<lparr>kind = FloatKind, shape = [3], data = [Fin 5, Fin 5, Fin 5]\<rparr>,
          \<lparr>kind = FloatKind, shape = [3], data = [Fin 0, Fin 0, Fin 0]\<rparr>)"
  by (simp add: mean_std_def const5_moments arr_map_def arr_map2_def fl_sub_def fl_mul_def
      overflow_small np_sub_def clip_lower_def cp_clip_def)

lemma image_100001_moments:
  "mean_std_moments ref_collab image_100001 (WindowInt 5) =
     Inr (\<lparr>kind = FloatKind, shape = [6],
            data = [Fin (1 / 5), Fin (1 / 5), Fin (1 / 5), Fin (1 / 5), Fin (1 / 5), Fin (1 / 5)]\<rparr>,
          \<lparr>kind = FloatKind, shape = [6],
            data = [Fin (1 / 5), Fin (1 / 5), Fin (1 / 5), Fin (1 / 5), Fin (1 / 5), Fin (1 / 5)]\<rparr>)"
  by code_simp

lemma image_100001_mean_std:
  "mean_std ref_collab image_100001 (WindowInt 5) =
     Inr (\<lparr>kind = FloatKind, shape = [6],
            data = [Fin (1 / 5), Fin (1 / 5), Fin (1 / 5), Fin (1 / 5), Fin (1 / 5), Fin (1 / 5)]\<rparr>,
          \<lparr>kind = FloatKind, shape = [6],
            data = [Fin (2 / 5), Fin (2 / 5), Fin (2 / 5), Fin (2 / 5), Fin (2 / 5), Fin (2 / 5)]\<rparr>)"
  by (simp add: mean_std_def image_100001_moments arr_map_def arr_map2_def fl_sub_def fl_mul_def
      overflow_small np_sub_def clip_lower_def cp_clip_def sqrt_4_25)





lemma huge3_moments:
  "mean_std_moments ref_collab huge3 (WindowInt 3) =
     Inr (\<lparr>kind = FloatKind, shape = [3], data = [Fin (2 ^ 64), Fin (2 ^ 64), Fin (2 ^ 64)]\<rparr>,
          \<lparr>kind = FloatKind, shape = [3], data = [PInf, NaN, NaN]\<rparr>)"
  by code_simp

lemma huge3_float_type: "supported_float_type ref_collab huge3 = Float32"
  by (simp add: ref_collab_def ref_supported_float_type_def huge3_def)

lemma huge3_square: "fl_mul Float32 (Fin (2 ^ 64)) (Fin (2 ^ 64)) = PInf"
  by (simp add: fl_mul_def overflow_def finfo_max_def)

lemma huge3_mean_std:
  "mean_std ref_collab huge3 (WindowInt 3) =
     Inr (\<lparr>kind = FloatKind, shape = [3], data = [Fin (2 ^ 64), Fin (2 ^ 64), Fin (2 ^ 64)]\<rparr>,
          \<lparr>kind = FloatKind, shape = [3], data = [NaN, NaN, NaN]\<rparr>)"
  by (simp add: mean_std_def huge3_moments huge3_float_type arr_map_def arr_map2_def
      fl_sub_def fl_mul_def overflow_def finfo_max_def np_sub_def clip_lower_def cp_clip_def)




subsection \<open>Niblack and Sauvola with \<open>k = 0\<close>\<close>

lemma mean_std_in_range:
  assumes "mean_std C img w0 = Inr (m, s)"
  shows "\<forall>x\<in>set (data m). overflow (supported_float_type C img) x = x"
    and "\<forall>x\<in>set (data s). \<forall>r. x = Fin r \<longrightarrow> 0 \<le> r \<and> r \<le> finfo_max (supported_float_type C img)"
proof -
  let ?ft = "supported_float_type C img"
  from assms obtain g2 where mo: "mean_std_moments C img w0 = Inr (m, g2)"
    by (auto simp: mean_std_def Let_def split: sum.splits prod.splits)
  from moments_in_range(1) [OF mo] show "\<forall>x\<in>set (data m). overflow ?ft x = x" .
  from mean_std_data [OF mo assms]
  have s: "data s = map2 (\<lambda>a b. np_sqrt (clip_lower (fl_sub ?ft a (fl_mul ?ft b b)) (Fin 0)))
      (data g2) (data m)"
    by simp
  show "\<forall>x\<in>set (data s). \<forall>r. x = Fin r \<longrightarrow> 0 \<le> r \<and> r \<le> finfo_max ?ft"
  proof (intro ballI allI impI)
    fix x r assume "x \<in> set (data s)" and x: "x = Fin r"
    then obtain a b where "x = np_sqrt (clip_lower (fl_sub ?ft a (fl_mul ?ft b b)) (Fin 0))"
      unfolding s by auto
    with x have "np_sqrt (clip_lower (overflow ?ft (np_sub a (fl_mul ?ft b b))) (Fin 0)) = Fin r"
      by (simp add: fl_sub_def)
    then show "0 \<le> r \<and> r \<le> finfo_max ?ft" by (rule clip_sqrt_in_range)
  qed
qed

lemma sauvola_factor_one:
  assumes "isfinite (fl_sub ft (fl_div ft x r) (Fin 1))"
  shows "fl_add ft (Fin 1) (fl_mul ft (Fin 0) (fl_sub ft (fl_div ft x r) (Fin 1))) = Fin 1"
proof -
  from assms obtain q where "fl_sub ft (fl_div ft x r) (Fin 1) = Fin q"
    unfolding isfinite_iff by blast
  then show ?thesis
    by (simp add: fl_add_def fl_mul_def overflow_small)
qed

lemma sauvola_quotient_finite:
  assumes "0 \<le> b" "b \<le> finfo_max ft" "1 \<le> r"
  shows "isfinite (fl_sub ft (fl_div ft (Fin b) (Fin r)) (Fin 1))"
proof -
  have one: "1 \<le> finfo_max ft" using finfo_max_ge [of ft] by simp
  from assms have "b * 1 \<le> b * r" by (intro mult_left_mono) simp_all
  with assms have q: "0 \<le> b / r" "b / r \<le> b"
    by (simp_all add: divide_le_eq)
  with assms one have "fl_div ft (Fin b) (Fin r) = Fin (b / r)"
    by (simp add: fl_div_def overflow_def)
  moreover from q assms one have "- finfo_max ft \<le> b / r - 1" "b / r - 1 \<le> finfo_max ft"
    by linarith+
  then have "overflow ft (Fin (b / r - 1)) = Fin (b / r - 1)"
    by (simp add: overflow_in_range)
  ultimately show ?thesis
    by (simp add: fl_sub_def np_sub_def isfinite_def)
qed

lemma sauvola_factor_nan:
  "fl_add ft (Fin 1) (fl_mul ft (Fin 0) (fl_sub ft (fl_div ft (Fin b) (Fin 0)) (Fin 1))) = NaN"
  by (simp add: fl_add_def fl_mul_def fl_sub_def fl_div_def np_sub_def inf_of_sign_def)

lemma fl_mul_nan: "fl_mul ft x NaN = NaN"
  by (cases x) (simp_all add: fl_mul_def)

lemma image_100001_float_type: "supported_float_type ref_collab image_100001 = Float64"
  by (simp add: ref_collab_def ref_supported_float_type_def image_100001_def)

lemma const5_float_type: "supported_float_type ref_collab const5 = Float64"
  by (simp add: ref_collab_def ref_supported_float_type_def const5_def)

text \<open>
  Claim C6 as stated fails, in three ways. \<open>threshold_sauvola\<close> divides the standard
  deviation by \<open>r\<close>: with \<open>r = 0\<close> the quotient is NaN or infinite, and with a non-zero
  \<open>r\<close> as small as \<open>2^-1030\<close> the quotient of a standard deviation \<open>2/5\<close> overflows to
  \<open>+inf\<close>; in both cases \<open>k = 0\<close> no longer cancels it and the result is NaN and not the
  local mean. And where the standard deviation itself is NaN, as on the image whose
  squares overflow, \<open>threshold_niblack\<close> with \<open>k = 0\<close> returns NaN and not the finite
  local mean.
\<close>

theorem sauvola_r_zero_counterexample:
  "mean_std ref_collab const5 (WindowInt 3) =
     Inr (\<lparr>kind = FloatKind, shape = [3], data = [Fin 5, Fin 5, Fin 5]\<rparr>,
          \<lparr>kind = FloatKind, shape = [3], data = [Fin 0, Fin 0, Fin 0]\<rparr>)
   \<and> threshold_sauvola ref_collab const5 (WindowInt 3) (Fin 0) (Some (Fin 0)) =
     Inr \<lparr>kind = FloatKind, shape = [3], data = [NaN, NaN, NaN]\<rparr>
   \<and> mean_std ref_collab image_100001 (WindowInt 5) =
     Inr (\<lparr>kind = FloatKind, shape = [6],
            data = [Fin (1 / 5), Fin (1 / 5), Fin (1 / 5), Fin (1 / 5), Fin (1 / 5), Fin (1 / 5)]\<rparr>,
          \<lparr>kind = FloatKind, shape = [6],
            data = [Fin (2 / 5), Fin (2 / 5), Fin (2 / 5), Fin (2 / 5), Fin (2 / 5), Fin (2 / 5)]\<rparr>)
   \<and> threshold_sauvola ref_collab image_100001 (WindowInt 5) (Fin 0) (Some (Fin (1 / 2 ^ 1030))) =
     Inr \<lparr>kind = FloatKind, shape = [6], data = [NaN, NaN, NaN, NaN, NaN, NaN]\<rparr>
   \<and> mean_std ref_collab huge3 (WindowInt 3) =
     Inr (\<lparr>kind = FloatKind, shape = [3], data = [Fin (2 ^ 64), Fin (2 ^ 64), Fin (2 ^ 64)]\<rparr>,
          \<lparr>kind = FloatKind, shape = [3], data = [NaN, NaN, NaN]\<rparr>)
   \<and> threshold_niblack ref_collab huge3 (WindowInt 3) (Fin 0) =
     Inr \<lparr>kind = FloatKind, shape = [3], data = [NaN, NaN, NaN]\<rparr>"
proof -
  have a: "threshold_sauvola ref_collab const5 (WindowInt 3) (Fin 0) (Some (Fin 0)) =
     Inr \<lparr>kind = FloatKind, shape = [3], data = [NaN, NaN, NaN]\<rparr>"
    by (simp add: threshold_sauvola_def const5_mean_std const5_float_type arr_map_def
        arr_map2_def sauvola_factor_nan fl_mul_nan)
  have b: "threshold_sauvola ref_collab image_100001 (WindowInt 5) (Fin 0)
      (Some (Fin (1 / 2 ^ 1030))) =
     Inr \<lparr>kind = FloatKind, shape = [6], data = [NaN, NaN, NaN, NaN, NaN, NaN]\<rparr>"
    by (simp add: threshold_sauvola_def image_100001_mean_std image_100001_float_type
        arr_map_def arr_map2_def fl_add_def fl_mul_def fl_sub_def fl_div_def np_sub_def
        overflow_def finfo_max_def Let_def)
  have c: "threshold_niblack ref_collab huge3 (WindowInt 3) (Fin 0) =
     Inr \<lparr>kind = FloatKind, shape = [3], data = [NaN, NaN, NaN]\<rparr>"
    by (simp add: threshold_niblack_def huge3_mean_std huge3_float_type arr_map_def
        arr_map2_def fl_mul_def fl_sub_def np_sub_def)
  from a b c show ?thesis
    by (simp add: const5_mean_std image_100001_mean_std huge3_mean_std)
qed

text \<open>
  Claim C6, amended. Where \<open>_mean_std\<close> returns a standard deviation \<open>s\<close> that is finite
  at every pixel, \<open>threshold_niblack\<close> with \<open>k = 0\<close> returns exactly the local mean \<open>m\<close> of
  \<open>_mean_std\<close>, and so does \<open>threshold_sauvola\<close> with \<open>k = 0\<close> for every \<open>r\<close> for which
  \<open>s / r - 1\<close> is finite in the working float type at every pixel, which is so for
  every finite \<open>r \<ge> 1\<close>. The default \<open>r\<close>, half the range of the image's dtype, behaves
  as that number given explicitly. With \<open>r = 0\<close> the result of \<open>threshold_sauvola\<close> with
  \<open>k = 0\<close> is NaN at every pixel.
\<close>

theorem niblack_sauvola_k0:
  assumes "mean_std C img w0 = Inr (m, s)"
    and "\<forall>x\<in>set (data s). isfinite x"
  shows "threshold_niblack C img w0 (Fin 0) = Inr m
    \<and> (\<forall>r. (\<forall>x\<in>set (data s).
              isfinite (fl_sub (supported_float_type C img)
                (fl_div (supported_float_type C img) x r) (Fin 1))) \<longrightarrow>
           threshold_sauvola C img w0 (Fin 0) (Some r) = Inr m)
    \<and> (\<forall>r\<ge>1. threshold_sauvola C img w0 (Fin 0) (Some (Fin r)) = Inr m)
    \<and> threshold_sauvola C img w0 k None =
        threshold_sauvola C img w0 k
          (Some (Fin (0.5 * (snd (dtype_limits C img) - fst (dtype_limits C img)))))
    \<and> threshold_sauvola C img w0 (Fin 0) (Some (Fin 0)) = Inr (arr_map (\<lambda>x. NaN) m)"
proof -
  let ?ft = "supported_float_type C img"
  let ?g = "\<lambda>r x. fl_add ?ft (Fin 1) (fl_mul ?ft (Fin 0) (fl_sub ?ft (fl_div ?ft x r) (Fin 1)))"
  from mean_std_shape [OF assms(1)]
  have sh: "shape s = shape m" and len: "length (data s) = length (data m)"
    by simp_all
  note rm = mean_std_in_range(1) [OF assms(1)]
  note rs = mean_std_in_range(2) [OF assms(1)]
  have nib: "threshold_niblack C img w0 (Fin 0) = Inr m"
  proof -
    have "map2 (fl_sub ?ft) (data m) (map (\<lambda>x. fl_mul ?ft (Fin 0) x) (data s)) = data m"
    proof (rule map2_same_left)
      show "length (data m) = length (map (\<lambda>x. fl_mul ?ft (Fin 0) x) (data s))"
        using len by simp
      show "\<forall>(x, y)\<in>set (zip (data m) (map (\<lambda>x. fl_mul ?ft (Fin 0) x) (data s))).
          fl_sub ?ft x y = x"
      proof clarify
        fix x y assume xy: "(x, y) \<in> set (zip (data m) (map (\<lambda>x. fl_mul ?ft (Fin 0) x) (data s)))"
        then have "y \<in> set (map (\<lambda>x. fl_mul ?ft (Fin 0) x) (data s))"
          by (rule set_zip_rightD)
        then obtain b where "b \<in> set (data s)" "y = fl_mul ?ft (Fin 0) b" by auto
        with assms(2) have y: "y = Fin 0"
          by (auto simp: isfinite_iff fl_mul_def overflow_small)
        from xy have "x \<in> set (data m)" by (rule set_zip_leftD)
        with rm have "overflow ?ft x = x" by simp
        with y show "fl_sub ?ft x y = x" by (simp add: fl_sub_def)
      qed
    qed
    then show ?thesis
      using assms(1) sh len by (simp add: threshold_niblack_def arr_map2_def arr_map_def)
  qed
  have sau: "threshold_sauvola C img w0 (Fin 0) (Some r) = Inr m"
    if r: "\<forall>x\<in>set (data s). isfinite (fl_sub ?ft (fl_div ?ft x r) (Fin 1))" for r
  proof -
    have "map2 (fl_mul ?ft) (data m) (map (?g r) (data s)) = data m"
    proof (rule map2_same_left)
      show "length (data m) = length (map (?g r) (data s))"
        using len by simp
      show "\<forall>(x, y)\<in>set (zip (data m) (map (?g r) (data s))). fl_mul ?ft x y = x"
      proof clarify
        fix x y assume xy: "(x, y) \<in> set (zip (data m) (map (?g r) (data s)))"
        then have "y \<in> set (map (?g r) (data s))"
          by (rule set_zip_rightD)
        then obtain b where "b \<in> set (data s)" "y = ?g r b" by auto
        with r have y: "y = Fin 1" by (simp add: sauvola_factor_one)
        from xy have "x \<in> set (data m)" by (rule set_zip_leftD)
        with rm have "overflow ?ft x = x" by simp
        with y show "fl_mul ?ft x y = x" by (simp add: fl_mul_def)
      qed
    qed
    then show ?thesis
      using assms(1) sh len by (simp add: threshold_sauvola_def arr_map2_def arr_map_def)
  qed
  have big: "threshold_sauvola C img w0 (Fin 0) (Some (Fin r)) = Inr m" if "1 \<le> r" for r
  proof (rule sau, rule ballI)
    fix x assume x: "x \<in> set (data s)"
    with assms(2) obtain b where b: "x = Fin b" unfolding isfinite_iff by blast
    with x rs have "0 \<le> b \<and> b \<le> finfo_max ?ft" by blast
    with that show "isfinite (fl_sub ?ft (fl_div ?ft x (Fin r)) (Fin 1))"
      unfolding b by (intro sauvola_quotient_finite) simp_all
  qed
  have dflt: "threshold_sauvola C img w0 k None =
      threshold_sauvola C img w0 k
        (Some (Fin (0.5 * (snd (dtype_limits C img) - fst (dtype_limits C img)))))"
    by (cases "dtype_limits C img") (simp add: threshold_sauvola_def)
  have zero: "threshold_sauvola C img w0 (Fin 0) (Some (Fin 0)) = Inr (arr_map (\<lambda>x. NaN) m)"
  proof -
    have e1: "map (?g (Fin 0)) (data s) = map (\<lambda>x. NaN) (data s)"
    proof (rule map_cong [OF refl])
      fix x assume "x \<in> set (data s)"
      with assms(2) obtain b where "x = Fin b" unfolding isfinite_iff by blast
      then show "?g (Fin 0) x = NaN" by (simp add: sauvola_factor_nan)
    qed
    have e2: "map2 (fl_mul ?ft) xs (map (\<lambda>x. NaN) ys) = map (\<lambda>x. NaN) xs"
      if "length ys = length xs" for xs ys :: "fval list"
      using that by (induction ys xs rule: list_induct2) (simp_all add: fl_mul_nan)
    have "map2 (fl_mul ?ft) (data m) (map (?g (Fin 0)) (data s)) = map (\<lambda>x. NaN) (data m)"
      unfolding e1 using len by (rule e2)
    then show ?thesis
      using assms(1) sh len by (simp add: threshold_sauvola_def arr_map2_def arr_map_def)
  qed
  from nib sau big dflt zero show ?thesis by blast
qed

theorem niblack_sauvola_k0_witness:
  "threshold_niblack ref_collab image_100001 (WindowInt 5) (Fin 0) =
     Inr \<lparr>kind = FloatKind, shape = [6],
       data = [Fin (1 / 5), Fin (1 / 5), Fin (1 / 5), Fin (1 / 5), Fin (1 / 5), Fin (1 / 5)]\<rparr>
   \<and> threshold_sauvola ref_collab image_100001 (WindowInt 5) (Fin 0) (Some (Fin 128)) =
     Inr \<lparr>kind = FloatKind, shape = [6],
       data = [Fin (1 / 5), Fin (1 / 5), Fin (1 / 5), Fin (1 / 5), Fin (1 / 5), Fin (1 / 5)]\<rparr>
   \<and> threshold_sauvola ref_collab image_100001 (WindowInt 5) (Fin 0) None =
     Inr \<lparr>kind = FloatKind, shape = [6],
       data = [Fin (1 / 5), Fin (1 / 5), Fin (1 / 5), Fin (1 / 5), Fin (1 / 5), Fin (1 / 5)]\<rparr>
   \<and> threshold_sauvola ref_collab image_100001 (WindowInt 5) (Fin 0) (Some (Fin 0)) =
     Inr \<lparr>kind = FloatKind, shape = [6], data = [NaN, NaN, NaN, NaN, NaN, NaN]\<rparr>"
proof -
  have lim: "dtype_limits ref_collab image_100001 = (0, 255)"
    by (simp add: ref_collab_def ref_dtype_limits_def image_100001_def)
  have fin: "\<forall>x\<in>set (data \<lparr>kind = FloatKind, shape = [6],
      data = [Fin (2 / 5), Fin (2 / 5), Fin (2 / 5), Fin (2 / 5), Fin (2 / 5), Fin (2 / 5)]\<rparr>).
      isfinite x"
    by (simp add: isfinite_def)
  from niblack_sauvola_k0 [OF image_100001_mean_std fin, where k = "Fin 0"] lim show ?thesis
    by (simp add: arr_map_def)
qed

section \<open>Properties of \<open>apply_hysteresis_threshold\<close>\<close>




lemma docstring_example:
  "apply_hysteresis_threshold ref_collab docstring_image (Num (Fin (3 / 2))) (Num (Fin (5 / 2)))
     = Inr [False, True, True, True, False, False, False, True, True]"
  by code_simp




section \<open>Validation of windows and block sizes\<close>

lemma list_ex_even: "list_ex (\<lambda>b::int. b mod 2 = 0) bs \<longleftrightarrow> (\<exists>b\<in>set bs. even b)"
  by (simp add: list_ex_iff even_iff_mod_2_eq_zero)

lemma validate_window_size_rejects:
  "(\<exists>k\<in>set w. even k \<or> k \<le> 0) \<Longrightarrow>
     ref_validate_window_size w = Inl (ValueError (WindowSize w))"
  by (auto simp: ref_validate_window_size_def list_ex_iff even_iff_mod_2_eq_zero)

text \<open>
  Claim C8 as stated fails for \<open>threshold_local\<close>: its check is \<open>b % 2 == 0\<close>, which a
  negative odd size passes. With \<open>block_size = -3\<close> no validation error is raised: the
  \<open>generic\<close> method raises \<open>NotImplementedError\<close> and the \<open>mean\<close> method hands the size
  \<open>-3\<close> to the filter.
\<close>

theorem threshold_local_negative_block_counterexample:
  "threshold_local ref_collab const5 (BlockInt (- 3)) ''generic'' (Fin 0) ''reflect'' None (Fin 0)
     = Inl (NotImplementedError GenericFilterTodo)
   \<and> threshold_local ref_collab const5 (BlockInt (- 3)) ''mean'' (Fin 0) ''reflect'' None (Fin 0)
     = Inr (arr_map (\<lambda>x. np_sub x (Fin 0))
         (uniform_filter ref_collab (astype_float ref_collab const5) [- 3] ''reflect'' (Fin 0)))"
  by (simp add: threshold_local_def ndim_def const5_def)

text \<open>
  Claim C8, amended. \<open>threshold_local\<close> raises a validation error, whatever the method,
  the other arguments and the collaborators are: for a \<open>block_size\<close> sequence whose
  length differs from \<open>image.ndim\<close>, and, naming the block size, for every block size
  with an even component (\<open>0\<close> included). \<open>_mean_std\<close> raises what the window validation
  raises, before anything is computed; and the window validation, as the specification
  describes it, raises a validation error naming the window for every window with an
  even or non-positive component.
\<close>

theorem window_validation:
  "(length bs \<noteq> ndim img \<longrightarrow>
      threshold_local C img (BlockSeq bs) method_name offset mode param cval =
        Inl (ValueError BlockSizeLength))
   \<and> (length bs = ndim img \<and> (\<exists>b\<in>set bs. even b) \<longrightarrow>
      threshold_local C img (BlockSeq bs) method_name offset mode param cval =
        Inl (ValueError (BlockSizeEven bs)))
   \<and> (even b \<and> 0 < ndim img \<longrightarrow>
      threshold_local C img (BlockInt b) method_name offset mode param cval =
        Inl (ValueError (BlockSizeEven (replicate (ndim img) b))))
   \<and> (validate_window_size C (window_sizes img w) = Inl e \<longrightarrow> mean_std C img w = Inl e)
   \<and> ((\<exists>k\<in>set ws. even k \<or> k \<le> 0) \<longrightarrow>
      ref_validate_window_size ws = Inl (ValueError (WindowSize ws)))"
proof (intro conjI impI)
  assume "length bs \<noteq> ndim img"
  then show "threshold_local C img (BlockSeq bs) method_name offset mode param cval =
      Inl (ValueError BlockSizeLength)"
    by (simp add: threshold_local_def)
next
  assume "length bs = ndim img \<and> (\<exists>b\<in>set bs. even b)"
  then show "threshold_local C img (BlockSeq bs) method_name offset mode param cval =
      Inl (ValueError (BlockSizeEven bs))"
    by (simp add: threshold_local_def list_ex_even)
next
  assume "even b \<and> 0 < ndim img"
  then have "\<exists>x\<in>set (replicate (ndim img) b). even x" by simp
  then show "threshold_local C img (BlockInt b) method_name offset mode param cval =
      Inl (ValueError (BlockSizeEven (replicate (ndim img) b)))"
    unfolding threshold_local_def list_ex_even [symmetric] by simp
next
  assume "validate_window_size C (window_sizes img w) = Inl e"
  then show "mean_std C img w = Inl e"
    by (simp add: mean_std_def mean_std_moments_def)
next
  assume "\<exists>k\<in>set ws. even k \<or> k \<le> 0"
  then show "ref_validate_window_size ws = Inl (ValueError (WindowSize ws))"
    by (rule validate_window_size_rejects)
qed

theorem window_validation_witness:
  "threshold_local ref_collab const5 (BlockSeq [3, 3]) ''mean'' (Fin 0) ''reflect'' None (Fin 0)
     = Inl (ValueError BlockSizeLength)
   \<and> threshold_local ref_collab const5 (BlockSeq [4]) ''mean'' (Fin 0) ''reflect'' None (Fin 0)
     = Inl (ValueError (BlockSizeEven [4]))
   \<and> threshold_local ref_collab const5 (BlockInt 0) ''mean'' (Fin 0) ''reflect'' None (Fin 0)
     = Inl (ValueError (BlockSizeEven [0]))
   \<and> mean_std ref_collab const5 (WindowInt (- 3)) = Inl (ValueError (WindowSize [- 3]))
   \<and> mean_std ref_collab const5 (WindowSeq [4]) = Inl (ValueError (WindowSize [4]))"
proof -
  have n: "ndim const5 = 1"
    by (simp add: ndim_def const5_def)
  have w1: "window_sizes const5 (WindowInt (- 3)) = [- 3]"
    by (simp add: window_sizes_def n)
  have w2: "window_sizes const5 (WindowSeq [4]) = [4]"
    by (simp add: window_sizes_def)
  have v: "validate_window_size ref_collab = ref_validate_window_size"
    by (simp add: ref_collab_def)
  from window_validation [where bs = "[3, 3]" and img = const5 and C = ref_collab
      and method_name = "''mean''" and offset = "Fin 0" and mode = "''reflect''" and param = None
      and cval = "Fin 0" and b = 0 and w = "WindowInt (- 3)" and ws = "[- 3]"
      and e = "ValueError (WindowSize [- 3])"]
    window_validation [where bs = "[4]" and img = const5 and C = ref_collab
      and method_name = "''mean''" and offset = "Fin 0" and mode = "''reflect''" and param = None
      and cval = "Fin 0" and b = 0 and w = "WindowSeq [4]" and ws = "[4]"
      and e = "ValueError (WindowSize [4])"]
  show ?thesis
    by (simp add: n w1 w2 v)
qed

section \<open>Properties of the default tolerance\<close>









section \<open>Properties of the integer update of \<open>threshold_li\<close>\<close>













section \<open>Properties of the initial guess of \<open>threshold_li\<close>\<close>

lemma loop_errors_not_guess: "e \<in> loop_errors \<Longrightarrow> \<not> is_guess_range_error e \<and> e \<noteq> TypeError m"
  by (auto simp: loop_errors_def is_guess_range_error_def)

lemma threshold_li_nondegenerate:
  assumes "li_shifted img = Some (image_min, image3)"
  shows "threshold_li fuel histogram img tolerance guess cb =
     (case li_tolerance (kind img) image3 tolerance of
        Inl e \<Rightarrow> Some ([], Inl e)
      | Inr tol \<Rightarrow>
          (case li_initial_guess (kind img) image3 image_min guess of
             Inl e \<Rightarrow> Some ([], Inl e)
           | Inr t_next \<Rightarrow> li_run fuel histogram (kind img) image3 tol image_min cb t_next))"
  using assms
  by (auto simp: li_shifted_def threshold_li_def Let_def split: if_splits)

lemma threshold_li_degenerate_no_error:
  assumes "li_shifted img = None"
  shows "\<exists>v. threshold_li fuel histogram img tolerance guess cb = Some ([], Inr v)"
  using assms
  by (auto simp: li_shifted_def threshold_li_def Let_def split: if_splits)

lemma li_loop_error:
  "li_loop fuel update tol image_min cb t_next t_curr calls = Some (calls', Inl e)
     \<Longrightarrow> \<exists>t. update t = Inl e"
proof (induction fuel arbitrary: t_next t_curr calls)
  case 0
  then show ?case by (simp split: if_splits)
next
  case (Suc fuel)
  show ?case
  proof (cases "update t_next")
    case (Inl e')
    with Suc.prems show ?thesis by (auto split: if_splits)
  next
    case (Inr t_new)
    with Suc.prems have "li_loop fuel update tol image_min cb t_new t_next
        (li_callback cb (np_add t_new (Fin image_min)) calls) = Some (calls', Inl e)"
      by (simp split: if_splits)
    then show ?thesis by (rule Suc.IH)
  qed
qed

lemma math_log_error: "math_log x = Inl e \<Longrightarrow> e = ValueError MathDomain"
  by (cases x) (auto split: if_splits)

lemma li_quotient_error:
  "li_quotient a b = Inl e \<Longrightarrow> e \<in> loop_errors"
  by (auto simp: li_quotient_def py_truediv_def Let_def loop_errors_def
      split: sum.splits if_splits dest: math_log_error)

lemma li_update_int_error:
  "li_update_int hist bin_centers t = Inl e \<Longrightarrow> e \<in> loop_errors"
  by (auto simp: li_update_int_def np_average_def Let_def
      split: sum.splits if_splits dest: li_quotient_error)
    (simp_all add: loop_errors_def)

lemma li_update_float_error:
  "li_update_float img t = Inl e \<Longrightarrow> e \<in> loop_errors"
  by (auto simp: li_update_float_def Let_def dest: li_quotient_error)

lemma li_run_error:
  assumes "li_run fuel histogram k img tol image_min cb t = Some (calls, Inl e)"
  shows "e \<in> loop_errors"
proof -
  define update where "update =
      (if is_integer_kind k
       then (case histogram img of (hist, bin_centers) \<Rightarrow> li_update_int hist bin_centers)
       else li_update_float img)"
  from assms have "\<exists>calls0 c. li_loop fuel update tol image_min cb t (Fin (- 2 * tol)) calls0
      = Some (c, Inl e)"
    unfolding li_run_def Let_def update_def [symmetric]
    by (auto split: option.splits sum.splits prod.splits)
  then obtain x where "update x = Inl e"
    using li_loop_error by blast
  then show ?thesis
    unfolding update_def
    by (auto split: if_splits prod.splits dest: li_update_int_error li_update_float_error)
qed

lemma li_tolerance_error:
  "li_tolerance k img tolerance = Inl e \<Longrightarrow> e = ValueError ZeroSizeReduction"
  by (auto simp: li_tolerance_def np_min_def split: option.splits if_splits sum.splits)

text \<open>
  The shift of a signed integer image is stored in the image's dtype and wraps around:
  the 8-bit image \<open>[-128, 127, 127]\<close> becomes \<open>[0, -1, -1]\<close>.
\<close>

lemma signed_image_wraps:
  "li_shifted \<lparr>kind = SignedKind 8, shape = [3], data = [Fin (- 128), Fin 127, Fin 127]\<rparr> =
     Some (- 128, [0, - 1, - 1])"
  by (simp add: li_shifted_def remove_nan_def isnan_def np_eq_def dtype_store_def
      wrap_signed_def)

lemma image_1334_shifted: "li_shifted image_1334 = Some (1, [0, 2, 2, 3])"
  by (simp add: li_shifted_def image_1334_def remove_nan_def isnan_def np_eq_def dtype_store_def)

lemma image_1334_tolerance: "li_tolerance (kind image_1334) [0, 2, 2, 3] None = Inr (1 / 2)"
  by (simp add: li_tolerance_def py_or_default_def image_1334_def is_integer_kind_def)

lemma image_1334_histogram: "histogram_image [0, 2, 2, 3] = ([1, 0, 2, 1], [0, 1, 2, 3])"
  by (simp add: histogram_image_def upto_rec1)

lemma image_1334_run:
  "li_run (Suc 0) histogram_image IntKind [0, 2, 2, 3] (1 / 2) 1 True (Fin 10) =
     Some ([Fin 11], Inl (ZeroDivisionError WeightsSumToZero))"
  by (simp add: li_run_def image_1334_histogram li_callback_def np_gt_def np_sub_def
      li_update_int_def mask_select_def np_average_def is_integer_kind_def)

lemma image_134_shifted: "li_shifted image_134 = Some (1, [0, 2, 3])"
  by (simp add: li_shifted_def image_134_def remove_nan_def isnan_def np_eq_def dtype_store_def)

lemma image_134_tolerance: "li_tolerance (kind image_134) [0, 2, 3] None = Inr (1 / 2)"
  by (simp add: li_tolerance_def py_or_default_def image_134_def np_unique_def np_min_def
      is_integer_kind_def)

lemma image_134_run:
  "li_run (Suc 0) histogram_image FloatKind [0, 2, 3] (1 / 2) 1 True (Fin 10) =
     Some ([Fin 11, NaN], Inr NaN)"
  by (simp add: li_run_def li_callback_def np_gt_def np_sub_def li_update_float_def
      mask_select_def np_mean_def li_quotient_def py_truediv_def finfo_eps_def
      is_integer_kind_def)

text \<open>
  A callable \<open>initial_guess\<close> is not validated: its value on the shifted image is the
  initial estimate, whatever it is. On a non-degenerate image whose tolerance is
  resolved, \<open>threshold_li\<close> is the iteration started from that value; and no run with a
  callable guess ever raises the validation error of the initial guess, the only range
  check being the one on a literal scalar.
\<close>

lemma li_callable_guess_resolved:
  "li_initial_guess k image3 image_min (Callable f) = Inr (f image3)
   \<and> (\<forall>calls e. threshold_li fuel histogram img tolerance (Callable f) cb = Some (calls, Inl e)
         \<longrightarrow> \<not> is_guess_range_error e)
   \<and> (li_shifted img = Some (image_min, image3)
        \<and> li_tolerance (kind img) image3 tolerance = Inr tol \<longrightarrow>
      threshold_li fuel histogram img tolerance (Callable f) cb =
        li_run fuel histogram (kind img) image3 tol image_min cb (f image3))"
proof (intro conjI allI impI)
  show g: "li_initial_guess k image3 image_min (Callable f) = Inr (f image3)"
    for k image3 image_min
    by (simp add: li_initial_guess_def)
  show "threshold_li fuel histogram img tolerance (Callable f) cb =
        li_run fuel histogram (kind img) image3 tol image_min cb (f image3)"
    if "li_shifted img = Some (image_min, image3)
        \<and> li_tolerance (kind img) image3 tolerance = Inr tol"
    using that by (simp add: threshold_li_nondegenerate g)
next
  fix calls e
  assume r: "threshold_li fuel histogram img tolerance (Callable f) cb = Some (calls, Inl e)"
  show "\<not> is_guess_range_error e"
  proof (cases "li_shifted img")
    case None
    from threshold_li_degenerate_no_error [OF this, of fuel histogram tolerance "Callable f" cb] r
    show ?thesis by auto
  next
    case (Some p)
    obtain mn xs where p: "p = (mn, xs)" by (cases p)
    note unf = threshold_li_nondegenerate [OF Some [unfolded p]]
    show ?thesis
    proof (cases "li_tolerance (kind img) xs tolerance")
      case (Inl e')
      with r unf have "e = e'" by simp
      with Inl li_tolerance_error show ?thesis
        by (fastforce simp: is_guess_range_error_def)
    next
      case (Inr tol')
      with r unf have "li_run fuel histogram (kind img) xs tol' mn cb (f xs) = Some (calls, Inl e)"
        by (simp add: li_initial_guess_def)
      then have "e \<in> loop_errors" by (rule li_run_error)
      then show ?thesis by (simp add: loop_errors_not_guess)
    qed
  qed
qed

lemma li_callable_guess_examples:
  "li_shifted image_1334 = Some (1, [0, 2, 2, 3])
   \<and> li_tolerance (kind image_1334) [0, 2, 2, 3] None = Inr (1 / 2)
   \<and> li_initial_guess IntKind [0, 2, 2, 3] 1 (Callable (\<lambda>xs. Fin 10)) = Inr (Fin 10)
   \<and> threshold_li (Suc 0) histogram_image image_1334 None (Callable (\<lambda>xs. Fin 10)) True =
       Some ([Fin 11], Inl (ZeroDivisionError WeightsSumToZero))
   \<and> \<not> is_guess_range_error (ZeroDivisionError WeightsSumToZero)
   \<and> threshold_li (Suc 0) histogram_image image_1334 None (Scalar (Fin 11)) True =
       Some ([], Inl (ValueError (InitialGuessRange (Fin 11) 1 4)))
   \<and> li_shifted image_134 = Some (1, [0, 2, 3])
   \<and> li_tolerance (kind image_134) [0, 2, 3] None = Inr (1 / 2)
   \<and> threshold_li (Suc 0) histogram_image image_134 None (Callable (\<lambda>xs. Fin 10)) True =
       Some ([Fin 11, NaN], Inr NaN)"
proof -
  have k: "kind image_1334 = IntKind" "kind image_134 = FloatKind"
    by (simp_all add: image_1334_def image_134_def)
  have s: "threshold_li (Suc 0) histogram_image image_1334 None (Scalar (Fin 11)) True =
       Some ([], Inl (ValueError (InitialGuessRange (Fin 11) 1 4)))"
    by (simp add: threshold_li_nondegenerate [OF image_1334_shifted]
        image_1334_tolerance [unfolded k] li_initial_guess_def np_sub_def k dtype_store_def)
  from li_callable_guess_resolved [where img = image_1334 and k = IntKind and image_min = 1
      and ?image3.0 = "[0, 2, 2, 3]"
      and tolerance = None and tol = "1 / 2" and f = "\<lambda>xs. Fin 10" and fuel = "Suc 0"
      and histogram = histogram_image and cb = True]
    li_callable_guess_resolved [where img = image_134 and k = IntKind and image_min = 1
      and ?image3.0 = "[0, 2, 3]"
      and tolerance = None and tol = "1 / 2" and f = "\<lambda>xs. Fin 10" and fuel = "Suc 0"
      and histogram = histogram_image and cb = True]
  show ?thesis
    using image_1334_shifted image_1334_tolerance image_1334_run k s
      image_134_shifted image_134_tolerance image_134_run
    by (simp add: is_guess_range_error_def)
qed

text \<open>
  What \<open>threshold_li\<close> does with the initial guess, on a non-degenerate image whose
  tolerance is resolved: the validation error is raised exactly for a scalar that,
  moved to the shifted range, is not strictly between \<open>0\<close> and the maximum; the type
  error exactly for a guess that is neither \<open>None\<close>, nor callable, nor a scalar; and in
  both cases nothing is iterated (no fuel is needed and the callback is not called).
\<close>

lemma li_guess_errors:
  assumes "li_shifted img = Some (image_min, image3)"
    and "li_tolerance (kind img) image3 tolerance = Inr tol"
  shows "(\<exists>calls e. threshold_li fuel histogram img tolerance guess cb = Some (calls, Inl e)
            \<and> is_guess_range_error e) \<longleftrightarrow>
         (\<exists>g. guess = Scalar g \<and>
            \<not> (np_lt (Fin 0) (np_sub g (Fin image_min))
               \<and> np_lt (np_sub g (Fin image_min)) (Fin (Max (set image3)))))"
    and "(\<exists>calls m. threshold_li fuel histogram img tolerance guess cb =
            Some (calls, Inl (TypeError m))) \<longleftrightarrow> guess = OtherObject"
    and "guess = OtherObject \<or> (\<exists>g. guess = Scalar g \<and>
            \<not> (np_lt (Fin 0) (np_sub g (Fin image_min))
               \<and> np_lt (np_sub g (Fin image_min)) (Fin (Max (set image3))))) \<Longrightarrow>
         \<exists>e. threshold_li 0 histogram img tolerance guess cb = Some ([], Inl e)"
proof -
  note unf = threshold_li_nondegenerate [OF assms(1), of fuel histogram tolerance guess cb]
  have run_not_range: "\<not> is_guess_range_error e"
    if "li_run fuel histogram (kind img) image3 tol image_min cb t = Some (calls, Inl e)"
    for t calls e
    using li_run_error [OF that] by (simp add: loop_errors_not_guess)
  have run_not_type: "e \<noteq> TypeError m"
    if "li_run fuel histogram (kind img) image3 tol image_min cb t = Some (calls, Inl e)"
    for t calls e m
    using li_run_error [OF that] by (simp add: loop_errors_not_guess)
  show "(\<exists>calls e. threshold_li fuel histogram img tolerance guess cb = Some (calls, Inl e)
            \<and> is_guess_range_error e) \<longleftrightarrow>
         (\<exists>g. guess = Scalar g \<and>
            \<not> (np_lt (Fin 0) (np_sub g (Fin image_min))
               \<and> np_lt (np_sub g (Fin image_min)) (Fin (Max (set image3)))))"
    unfolding unf assms(2)
    by (cases guess)
      (auto simp: li_initial_guess_def Let_def is_guess_range_error_def dest: run_not_range)
  show "(\<exists>calls m. threshold_li fuel histogram img tolerance guess cb =
            Some (calls, Inl (TypeError m))) \<longleftrightarrow> guess = OtherObject"
    unfolding unf assms(2)
    by (cases guess) (auto simp: li_initial_guess_def Let_def dest: run_not_type)
  show "\<exists>e. threshold_li 0 histogram img tolerance guess cb = Some ([], Inl e)"
    if "guess = OtherObject \<or> (\<exists>g. guess = Scalar g \<and>
            \<not> (np_lt (Fin 0) (np_sub g (Fin image_min))
               \<and> np_lt (np_sub g (Fin image_min)) (Fin (Max (set image3)))))"
    using that
    unfolding threshold_li_nondegenerate [OF assms(1), of 0 histogram tolerance guess cb] assms(2)
    by (auto simp: li_initial_guess_def Let_def)
qed

text \<open>
  Claim C7. On every non-degenerate image \<open>threshold_li\<close> should raise a \<open>ValueError\<close>
  exactly for a literal scalar guess that, moved to the shifted range, is not strictly
  between \<open>0\<close> and the maximum, and a \<open>TypeError\<close> exactly for a guess that is neither
  \<open>None\<close>, nor callable, nor a scalar, without iterating. This holds where the tolerance
  is resolved, as shown above, but the code departs from it on some non-degenerate
  images. The check that the image has more than one value is made before the
  infinities are removed: a floating-point image with one finite value and an infinity
  passes it and is left with a single value. With no tolerance supplied,
  \<open>cp.min(cp.diff(cp.unique(image)))\<close> then reduces an empty array and raises a
  \<open>ValueError\<close> before the initial guess is looked at, whatever the guess is: on the image
  \<open>[1.0, inf]\<close> every call without a tolerance ends in that error.
\<close>

theorem threshold_li_single_finite_value:
  "threshold_li fuel histogram image_1_inf None guess cb =
     Some ([], Inl (ValueError ZeroSizeReduction))"
  by (simp add: threshold_li_def image_1_inf_def remove_nan_def isnan_def np_eq_def
      li_tolerance_def py_or_default_def np_unique_def np_min_def is_integer_kind_def)

text \<open>
  Claim C9. On every non-degenerate image a callable \<open>initial_guess\<close> should be called
  with the shifted image and its value used as the initial estimate, with no range
  validation. Where the tolerance is resolved the code does so, as shown above. But the
  floating-point image \<open>[1.0, inf]\<close> passes the three early returns, its shifted finite
  part is the single value \<open>0\<close>, and with no tolerance supplied the callable is never
  called: \<open>cp.min\<close> of the empty array of differences raises before the initial guess is
  looked at, so that every callable gives the same \<open>ValueError\<close> and the callback receives
  nothing. The cause is the one described under claim C7.
\<close>

theorem threshold_li_callable_not_called:
  "li_shifted image_1_inf = Some (1, [0])
   \<and> threshold_li fuel histogram image_1_inf None (Callable f) cb =
       Some ([], Inl (ValueError ZeroSizeReduction))"
  by (simp add: li_shifted_def threshold_li_def image_1_inf_def remove_nan_def isnan_def
      np_eq_def li_tolerance_def py_or_default_def np_unique_def np_min_def is_integer_kind_def
      dtype_store_def)

end
